theory Spec2Isabelle
  imports Main "HOL-Library.Sublist" "HOL-Library.Multiset"
begin

section \<open>Protocol generator for the Bayesian-optimisation colour-mixing loop\<close>

text \<open>
  The development embeds \<^verbatim>\<open>Hint/protocol_generator.py\<close>: the two generators
  \<^verbatim>\<open>generate_protocol_from_csv\<close> and \<^verbatim>\<open>generate_protocol_from_dataframe\<close>,
  and the entry point \<^verbatim>\<open>update_csv_data_handler\<close>.

  Python strings are modelled as \<^typ>\<open>string\<close>; a \<^typ>\<open>char\<close> stands for the code
  point of the same number, so the model covers texts of code points below 256.
  Console output (\<^verbatim>\<open>print\<close>) is not part of the model.
\<close>

subsection \<open>Characters and Python's text primitives\<close>

definition bslash :: char where
  "bslash = CHR 0x5C"

definition nl :: char where
  "nl = CHR 0x0A"

definition cr :: char where
  "cr = CHR 0x0D"

definition is_digit :: "char \<Rightarrow> bool" where
  \<comment> \<open>\<^verbatim>\<open>\d\<close> of a \<^verbatim>\<open>str\<close> pattern, on code points below 256: the ten ASCII digits\<close>
  "is_digit c = (c \<in> set ''0123456789'')"

definition digit_val :: "char \<Rightarrow> int" where
  "digit_val c = int (of_char c) - 48"

definition py_int :: "string \<Rightarrow> int" where
  \<comment> \<open>\<^verbatim>\<open>int(s)\<close> on a non-empty string of ASCII digits (the interpreter's optional
      limit on the number of digits is not modelled)\<close>
  "py_int ds = foldl (\<lambda>a c. 10 * a + digit_val c) 0 ds"

definition digit_char :: "nat \<Rightarrow> char" where
  "digit_char d = char_of (48 + d)"

function digits_of :: "nat \<Rightarrow> string" where
  "digits_of n = (if n < 10 then [digit_char n] else digits_of (n div 10) @ [digit_char (n mod 10)])"
  by pat_completeness auto
termination
  by (relation "measure id") auto

declare digits_of.simps [simp del]

definition py_str :: "int \<Rightarrow> string" where
  \<comment> \<open>\<^verbatim>\<open>str(i)\<close>, which is also what an f-string and \<^verbatim>\<open>json.dumps\<close> print for an int\<close>
  "py_str i = (if i < 0 then CHR ''-'' # digits_of (nat (- i)) else digits_of (nat i))"

function py_replace :: "string \<Rightarrow> string \<Rightarrow> string \<Rightarrow> string" where
  \<comment> \<open>\<^verbatim>\<open>s.replace(old, new)\<close>: every non-overlapping occurrence, from the left\<close>
  "py_replace old new [] = (if old = [] then new else [])"
| "py_replace old new (c # cs) =
     (if old = [] then new @ c # py_replace old new cs
      else if prefix old (c # cs) then new @ py_replace old new (drop (length old) (c # cs))
      else c # py_replace old new cs)"
  by pat_completeness auto
termination
  by (relation "measure (\<lambda>(old, new, s). length s)") auto

definition path_join :: "string \<Rightarrow> string \<Rightarrow> string" where
  \<comment> \<open>\<^verbatim>\<open>os.path.join(a, b)\<close> (POSIX)\<close>
  "path_join a b =
     (if b \<noteq> [] \<and> hd b = CHR ''/'' then b
      else if a = [] \<or> last a = CHR ''/'' then a @ b
      else a @ ''/'' @ b)"

subsection \<open>The iteration number in the file name\<close>

definition match_BO_R :: "string \<Rightarrow> string option" where
  \<comment> \<open>\<^verbatim>\<open>BO_R(\d+)\<close> matched at the start of the text: group 1\<close>
  "match_BO_R s =
     (if prefix ''BO_R'' s
      then (let ds = takeWhile is_digit (drop 4 s) in if ds = [] then None else Some ds)
      else None)"

fun search_BO_R :: "string \<Rightarrow> string option" where
  \<comment> \<open>\<^verbatim>\<open>re.search(r'BO_R(\d+)', s)\<close>: the leftmost match\<close>
  "search_BO_R [] = None"
| "search_BO_R (c # cs) =
     (case match_BO_R (c # cs) of Some ds \<Rightarrow> Some ds | None \<Rightarrow> search_BO_R cs)"

definition iteration_of_path :: "string \<Rightarrow> int" where
  \<comment> \<open>the value that \<^verbatim>\<open>update_csv_data_handler\<close> gives to \<^verbatim>\<open>iteration_number\<close>\<close>
  "iteration_of_path csv_file_path =
     (case search_BO_R csv_file_path of Some ds \<Rightarrow> py_int ds | None \<Rightarrow> 0)"

subsection \<open>Tables and their JSON rendering\<close>

text \<open>
  A cell is what \<^verbatim>\<open>Series.tolist()\<close> hands to \<^verbatim>\<open>json.dumps\<close>. Floating-point
  numbers are never computed with, only printed: \<open>CFloat\<close> carries the text that
  \<^verbatim>\<open>json.dumps\<close> prints for the number (\<^verbatim>\<open>float.__repr__\<close>, or \<^verbatim>\<open>NaN\<close>,
  \<^verbatim>\<open>Infinity\<close>, \<^verbatim>\<open>-Infinity\<close>).
\<close>

datatype cell = CInt int | CFloat string | CStr string | CBool bool | CNone

type_synonym dataframe = "(string \<times> cell list) list"

datatype exn = KeyError string | AttributeError | ReError | GroupReference

definition column :: "dataframe \<Rightarrow> string \<Rightarrow> exn + cell list" where
  \<comment> \<open>\<^verbatim>\<open>df[c].tolist()\<close>: a missing label raises KeyError; a label carried by several
      columns selects a DataFrame, which has no \<^verbatim>\<open>tolist\<close>\<close>
  "column df c =
     (case filter (\<lambda>kv. fst kv = c) df of
        [] \<Rightarrow> Inl (KeyError c)
      | [kv] \<Rightarrow> Inr (snd kv)
      | _ \<Rightarrow> Inl AttributeError)"

definition hex_char :: "nat \<Rightarrow> char" where
  "hex_char d = ''0123456789abcdef'' ! (d mod 16)"

definition json_escape :: "char \<Rightarrow> string" where
  \<comment> \<open>\<^verbatim>\<open>ESCAPE_ASCII\<close> and \<^verbatim>\<open>ESCAPE_DCT\<close> of \<^verbatim>\<open>json.encoder\<close> (\<^verbatim>\<open>ensure_ascii=True\<close>)\<close>
  "json_escape c =
     (if c = bslash then [bslash, bslash]
      else if c = CHR 0x22 then [bslash, CHR 0x22]
      else if c = CHR 0x08 then [bslash, CHR ''b'']
      else if c = CHR 0x0C then [bslash, CHR ''f'']
      else if c = nl then [bslash, CHR ''n'']
      else if c = CHR 0x0D then [bslash, CHR ''r'']
      else if c = CHR 0x09 then [bslash, CHR ''t'']
      else (let n = (of_char c :: nat) in
            if n < 32 \<or> 126 < n
            then bslash # ''u00'' @ [hex_char (n div 16), hex_char (n mod 16)]
            else [c]))"

definition encode_str :: "string \<Rightarrow> string" where
  "encode_str s = CHR 0x22 # concat (map json_escape s) @ [CHR 0x22]"

fun encode_cell :: "cell \<Rightarrow> string" where
  "encode_cell (CInt i) = py_str i"
| "encode_cell (CFloat t) = t"
| "encode_cell (CStr s) = encode_str s"
| "encode_cell (CBool b) = (if b then ''true'' else ''false'')"
| "encode_cell CNone = ''null''"

definition newline_indent :: "nat \<Rightarrow> string" where
  \<comment> \<open>\<^verbatim>\<open>'\n' + _indent * level\<close> with \<^verbatim>\<open>indent=8\<close>\<close>
  "newline_indent lvl = nl # replicate (8 * lvl) (CHR '' '')"

fun py_join :: "string \<Rightarrow> string list \<Rightarrow> string" where
  "py_join sep [] = []"
| "py_join sep [x] = x"
| "py_join sep (x # y # ys) = x @ sep @ py_join sep (y # ys)"

definition encode_list :: "nat \<Rightarrow> cell list \<Rightarrow> string" where
  "encode_list lvl xs =
     (if xs = [] then ''[]''
      else ''['' @ newline_indent (lvl + 1)
           @ py_join ('','' @ newline_indent (lvl + 1)) (map encode_cell xs)
           @ newline_indent lvl @ '']'')"

definition encode_dict :: "nat \<Rightarrow> (string \<times> cell list) list \<Rightarrow> string" where
  "encode_dict lvl kvs =
     (if kvs = [] then ''{}''
      else ''{'' @ newline_indent (lvl + 1)
           @ py_join ('','' @ newline_indent (lvl + 1))
               (map (\<lambda>kv. encode_str (fst kv) @ '': '' @ encode_list (lvl + 1) (snd kv)) kvs)
           @ newline_indent lvl @ ''}'')"

definition json_dumps :: "(string \<times> cell list) list \<Rightarrow> string" where
  \<comment> \<open>\<^verbatim>\<open>json.dumps(d, indent=8)\<close> of a dict (in insertion order) of lists of cells\<close>
  "json_dumps d = encode_dict 0 d"

subsection \<open>The regular-expression substitution\<close>

definition is_ascii_letter :: "char \<Rightarrow> bool" where
  "is_ascii_letter c =
     (c \<in> set ''abcdefghijklmnopqrstuvwxyzABCDEFGHIJKLMNOPQRSTUVWXYZ'')"

definition template_escape :: "char \<Rightarrow> char option" where
  \<comment> \<open>the escapes that the replacement template of \<^verbatim>\<open>re.sub\<close> turns into one character\<close>
  "template_escape d =
     (if d = CHR ''a'' then Some (CHR 0x07)
      else if d = CHR ''b'' then Some (CHR 0x08)
      else if d = CHR ''f'' then Some (CHR 0x0C)
      else if d = CHR ''n'' then Some nl
      else if d = CHR ''r'' then Some (CHR 0x0D)
      else if d = CHR ''t'' then Some (CHR 0x09)
      else if d = CHR ''v'' then Some (CHR 0x0B)
      else if d = bslash then Some bslash
      else None)"

text \<open>
  \<^verbatim>\<open>re.sub\<close> compiles a replacement string that contains a backslash before it
  searches (CPython 3.7 and later): a backslash with an unknown ASCII letter, or at the
  end, raises \<^verbatim>\<open>re.error\<close>; with any other unknown character both characters stay.
  The group syntax (\<^verbatim>\<open>\g<...>\<close>, a backslash with a digit) is outside the model
  and reported as \<open>GroupReference\<close>. It does not occur in the replacement text of the
  generators: \<^verbatim>\<open>json.dumps\<close> puts after a backslash one of the characters
  \<^verbatim>\<open>\ " b f n r t u\<close> only (\<open>safe_escapes\<close>, lemma \<open>data_section_without_group_syntax\<close>).
\<close>

fun expand_template :: "string \<Rightarrow> exn + string" where
  "expand_template [] = Inr []"
| "expand_template [c] = (if c = bslash then Inl ReError else Inr [c])"
| "expand_template (c # d # cs) =
     (if c \<noteq> bslash
      then (case expand_template (d # cs) of Inl e \<Rightarrow> Inl e | Inr r \<Rightarrow> Inr (c # r))
      else if d = CHR ''g'' \<or> is_digit d then Inl GroupReference
      else (case template_escape d of
              Some x \<Rightarrow> (case expand_template cs of Inl e \<Rightarrow> Inl e | Inr r \<Rightarrow> Inr (x # r))
            | None \<Rightarrow>
                if is_ascii_letter d then Inl ReError
                else (case expand_template cs of
                        Inl e \<Rightarrow> Inl e
                      | Inr r \<Rightarrow> Inr (bslash # d # r))))"

fun safe_escapes :: "string \<Rightarrow> bool" where
  "safe_escapes [] = True"
| "safe_escapes [c] = (c \<noteq> bslash)"
| "safe_escapes (c # d # cs) =
     (if c = bslash then d \<noteq> CHR ''g'' \<and> \<not> is_digit d \<and> safe_escapes cs
      else safe_escapes (d # cs))"

definition pattern_prefix :: string where
  \<comment> \<open>the literal part of \<^verbatim>\<open>pattern\<close>, up to and with the open brace\<close>
  "pattern_prefix =
     ''    # BO ITERATION DATA - WILL BE REPLACED DYNAMICALLY'' @ nl # ''    BO_DATA = {''"

definition match_pattern :: "string \<Rightarrow> string option" where
  \<comment> \<open>\<^verbatim>\<open>pattern\<close> matched at the start of the text; the result is the text after the
      match. \<^verbatim>\<open>[^}]+\<close> takes every character up to the next close brace, at least
      one, and the close brace has to follow.\<close>
  "match_pattern s =
     (if prefix pattern_prefix s
      then (let r = drop (length pattern_prefix) s;
                body = takeWhile (\<lambda>c. c \<noteq> CHR ''}'') r;
                rest = dropWhile (\<lambda>c. c \<noteq> CHR ''}'') r
            in if body = [] \<or> rest = [] then None else Some (tl rest))
      else None)"

function re_sub :: "string \<Rightarrow> string \<Rightarrow> string" where
  \<comment> \<open>\<^verbatim>\<open>re.sub(pattern, repl, s)\<close> with the replacement already expanded: every
      match, from the left (\<^verbatim>\<open>count=0\<close>)\<close>
  "re_sub repl [] = []"
| "re_sub repl (c # cs) =
     (case match_pattern (c # cs) of
        Some rest \<Rightarrow> repl @ re_sub repl rest
      | None \<Rightarrow> c # re_sub repl cs)"
  by pat_completeness auto
termination
proof (relation "measure (\<lambda>(repl, s). length s)")
  show "wf (measure (\<lambda>(repl, s). length s))"
    by simp
next
  fix repl :: string and c cs rest
  assume m: "match_pattern (c # cs) = Some rest"
  have "length (tl (dropWhile (\<lambda>c. c \<noteq> CHR ''}'') (drop (length pattern_prefix) (c # cs))))
          \<le> length (c # cs) - 1"
    by (metis diff_le_mono length_drop length_dropWhile_le length_tl le_trans diff_le_self)
  with m have "length rest < length (c # cs)"
    by (auto simp: match_pattern_def Let_def split: if_splits)
  then show "((repl, rest), (repl, c # cs)) \<in> measure (\<lambda>(repl, s). length s)"
    by simp
qed simp

subsection \<open>Files and the two generators\<close>

text \<open>
  The file system is a map from paths to the stored texts, with the paths that can be
  opened for writing. A file opened with \<^verbatim>\<open>open(p, 'r')\<close> is read with universal
  newlines: a carriage return, alone or before a line feed, is read as a line feed.
  A text is written as it is (the line separator of POSIX). Paths are compared as
  they are written.
  \<^verbatim>\<open>pd.read_csv\<close> is a parameter \<open>parse\<close>: it maps the stored text of the file
  to the table, or to nothing where pandas raises.
\<close>

record world =
  files :: "string \<rightharpoonup> string"
  writable :: "string \<Rightarrow> bool"

fun universal_newlines :: "string \<Rightarrow> string" where
  "universal_newlines [] = []"
| "universal_newlines [c] = (if c = cr then [nl] else [c])"
| "universal_newlines (c # d # cs) =
     (if c = cr
      then (if d = nl then nl # universal_newlines cs else nl # universal_newlines (d # cs))
      else c # universal_newlines (d # cs))"

definition read_text :: "world \<Rightarrow> string \<Rightarrow> string option" where
  \<comment> \<open>\<^verbatim>\<open>with open(p, 'r') as f: f.read()\<close>\<close>
  "read_text w p = (case files w p of None \<Rightarrow> None | Some t \<Rightarrow> Some (universal_newlines t))"

definition read_csv :: "(string \<Rightarrow> dataframe option) \<Rightarrow> world \<Rightarrow> string \<Rightarrow> dataframe option" where
  "read_csv parse w p = (case files w p of None \<Rightarrow> None | Some t \<Rightarrow> parse t)"

definition write_file :: "world \<Rightarrow> string \<Rightarrow> string \<Rightarrow> world option" where
  \<comment> \<open>\<^verbatim>\<open>with open(p, 'w') as f: f.write(t)\<close>\<close>
  "write_file w p t = (if writable w p then Some (w\<lparr>files := (files w)(p \<mapsto> t)\<rparr>) else None)"

definition protocol_filename :: "int \<Rightarrow> string" where
  "protocol_filename iteration_number = ''color_mixing_BO'' @ py_str iteration_number @ ''.py''"

definition base_protocol_path :: string where
  "base_protocol_path = ''color_mixing.py''"

definition data_section :: "(string \<times> cell list) list \<Rightarrow> int \<Rightarrow> string" where
  "data_section bo_data iteration_number =
     ''    # BO ITERATION DATA - BO'' @ py_str iteration_number @ nl # ''    BO_DATA = ''
     @ py_replace ''}'' (nl # ''    }'')
         (py_replace ''{'' (''{'' @ nl # ''        '') (json_dumps bo_data))"

definition protocol_name :: string where
  "protocol_name = '''protocolName': 'Color Liquid Mixing - Bayesian Optimization','' "

definition protocol_name_of :: "int \<Rightarrow> string" where
  "protocol_name_of iteration_number =
     '''protocolName': 'Color Liquid Mixing - BO Iteration '' @ py_str iteration_number @ ''',''"

text \<open>
  A generator returns the new file system and either the exception it raises (\<open>Inl\<close>)
  or the value it returns: the path of the protocol, or \<^verbatim>\<open>None\<close>.
\<close>

definition generate_protocol_from_csv ::
  "(string \<Rightarrow> dataframe option) \<Rightarrow> world \<Rightarrow> string \<Rightarrow> int \<Rightarrow> string
     \<Rightarrow> world \<times> (exn + string option)" where
  "generate_protocol_from_csv parse w csv_file_path iteration_number output_dir =
     (case read_csv parse w csv_file_path of
        None \<Rightarrow> (w, Inr None)
      | Some df \<Rightarrow>
     (case column df ''colorA'' of Inl e \<Rightarrow> (w, Inl e) | Inr colorA \<Rightarrow>
     (case column df ''colorB'' of Inl e \<Rightarrow> (w, Inl e) | Inr colorB \<Rightarrow>
     (case column df ''colorC'' of Inl e \<Rightarrow> (w, Inl e) | Inr colorC \<Rightarrow>
     (case column df ''DispensePos'' of Inl e \<Rightarrow> (w, Inl e) | Inr pos \<Rightarrow>
       (let bo_data = [(''colorA'', colorA), (''colorB'', colorB),
                       (''colorC'', colorC), (''DispensePos'', pos)];
            protocol_path = path_join output_dir (protocol_filename iteration_number)
        in case read_text w base_protocol_path of
             None \<Rightarrow> (w, Inr None)
           | Some protocol_content \<Rightarrow>
          (case expand_template (data_section bo_data iteration_number) of
             Inl e \<Rightarrow> (w, Inl e)
           | Inr repl \<Rightarrow>
              (let updated_content = re_sub repl protocol_content;
                   updated_content =
                     py_replace protocol_name (protocol_name_of iteration_number) updated_content
               in case write_file w protocol_path updated_content of
                    None \<Rightarrow> (w, Inr None)
                  | Some w' \<Rightarrow> (w', Inr (Some protocol_path))))))))))"

definition generate_protocol_from_dataframe ::
  "world \<Rightarrow> dataframe \<Rightarrow> int \<Rightarrow> string \<Rightarrow> world \<times> (exn + string option)" where
  "generate_protocol_from_dataframe w df iteration_number output_dir =
     (case column df ''colorA'' of Inl e \<Rightarrow> (w, Inl e) | Inr colorA \<Rightarrow>
     (case column df ''colorB'' of Inl e \<Rightarrow> (w, Inl e) | Inr colorB \<Rightarrow>
     (case column df ''colorC'' of Inl e \<Rightarrow> (w, Inl e) | Inr colorC \<Rightarrow>
     (case column df ''DispensePos'' of Inl e \<Rightarrow> (w, Inl e) | Inr pos \<Rightarrow>
       (let bo_data = [(''colorA'', colorA), (''colorB'', colorB),
                       (''colorC'', colorC), (''DispensePos'', pos)];
            protocol_path = path_join output_dir (protocol_filename iteration_number)
        in case read_text w base_protocol_path of
             None \<Rightarrow> (w, Inr None)
           | Some protocol_content \<Rightarrow>
          (case expand_template (data_section bo_data iteration_number) of
             Inl e \<Rightarrow> (w, Inl e)
           | Inr repl \<Rightarrow>
              (let updated_content = re_sub repl protocol_content;
                   updated_content =
                     py_replace protocol_name (protocol_name_of iteration_number) updated_content
               in case write_file w protocol_path updated_content of
                    None \<Rightarrow> (w, Inr None)
                  | Some w' \<Rightarrow> (w', Inr (Some protocol_path)))))))))"

definition update_csv_data_handler ::
  "(string \<Rightarrow> dataframe option) \<Rightarrow> world \<Rightarrow> string \<Rightarrow> world \<times> string option" where
  \<comment> \<open>every exception is caught and turned into \<^verbatim>\<open>None\<close>; after a successful
      generation the table is read once more, for display\<close>
  "update_csv_data_handler parse w csv_file_path =
     (case generate_protocol_from_csv parse w csv_file_path
             (iteration_of_path csv_file_path) ''.'' of
        (w', Inl e) \<Rightarrow> (w', None)
      | (w', Inr None) \<Rightarrow> (w', None)
      | (w', Inr (Some protocol_path)) \<Rightarrow>
          (case read_csv parse w' csv_file_path of
             None \<Rightarrow> (w', None)
           | Some df \<Rightarrow> (w', Some protocol_path)))"

subsection \<open>Notions used in the statements\<close>

definition bo_data_of :: "dataframe \<Rightarrow> exn + (string \<times> cell list) list" where
  \<comment> \<open>the dictionary \<^verbatim>\<open>bo_data\<close> that both generators build, or the first exception\<close>
  "bo_data_of df =
     (case column df ''colorA'' of Inl e \<Rightarrow> Inl e | Inr colorA \<Rightarrow>
     (case column df ''colorB'' of Inl e \<Rightarrow> Inl e | Inr colorB \<Rightarrow>
     (case column df ''colorC'' of Inl e \<Rightarrow> Inl e | Inr colorC \<Rightarrow>
     (case column df ''DispensePos'' of Inl e \<Rightarrow> Inl e | Inr pos \<Rightarrow>
        Inr [(''colorA'', colorA), (''colorB'', colorB),
             (''colorC'', colorC), (''DispensePos'', pos)]))))"

definition relabel :: "int \<Rightarrow> string \<Rightarrow> string" where
  \<comment> \<open>the \<^verbatim>\<open>updated_content.replace(...)\<close> step of both generators\<close>
  "relabel iteration_number t = py_replace protocol_name (protocol_name_of iteration_number) t"

definition protocol_path_of :: "string \<Rightarrow> int \<Rightarrow> string" where
  "protocol_path_of output_dir iteration_number =
     path_join output_dir (protocol_filename iteration_number)"

definition spread_braces :: "string \<Rightarrow> string" where
  \<comment> \<open>the two \<^verbatim>\<open>.replace\<close> calls that \<^verbatim>\<open>data_section\<close> applies to the JSON text\<close>
  "spread_braces s =
     py_replace ''}'' (nl # ''    }'') (py_replace ''{'' (''{'' @ nl # ''        '') s)"

fun occurs_in :: "string \<Rightarrow> string \<Rightarrow> bool" where
  \<comment> \<open>\<^verbatim>\<open>sub in s\<close>\<close>
  "occurs_in sub [] = (sub = [])"
| "occurs_in sub (c # cs) = (prefix sub (c # cs) \<or> occurs_in sub cs)"

definition region_at :: "string \<Rightarrow> nat \<Rightarrow> bool" where
  \<comment> \<open>\<^verbatim>\<open>pattern\<close> matches the text at offset \<open>i\<close>\<close>
  "region_at t i = (match_pattern (drop i t) \<noteq> None)"

fun no_region_in :: "string \<Rightarrow> string \<Rightarrow> bool" where
  \<comment> \<open>in the text \<open>a @ x\<close>, \<^verbatim>\<open>pattern\<close> matches at no offset inside \<open>a\<close>\<close>
  "no_region_in [] x = True"
| "no_region_in (c # cs) x = (match_pattern (c # cs @ x) = None \<and> no_region_in cs x)"







fun absent_before :: "string \<Rightarrow> string \<Rightarrow> string \<Rightarrow> bool" where
  \<comment> \<open>in the text \<open>a @ x\<close>, \<open>old\<close> occurs at no offset inside \<open>a\<close>\<close>
  "absent_before old [] x = True"
| "absent_before old (c # cs) x = (\<not> prefix old (c # cs @ x) \<and> absent_before old cs x)"

fun plain_cell :: "cell \<Rightarrow> bool" where
  \<comment> \<open>the text of a float has no backslash (no number is printed with one)\<close>
  "plain_cell (CFloat t) = (bslash \<notin> set t)"
| "plain_cell _ = True"

subsection \<open>Example inputs\<close>

definition unlines :: "string list \<Rightarrow> string" where
  "unlines ls = concat (map (\<lambda>l. l @ [nl]) ls)"

definition example_table :: dataframe where
  "example_table =
     [(''colorA'', [CFloat ''1.0'', CFloat ''2.0'']),
      (''colorB'', [CFloat ''3.0'', CFloat ''4.0'']),
      (''colorC'', [CFloat ''5.0'', CFloat ''6.0'']),
      (''DispensePos'', [CStr ''A1'', CStr ''A2''])]"

definition example_csv :: string where
  "example_csv =
     unlines [''colorA,colorB,colorC,DispensePos'', ''1.0,3.0,5.0,A1'', ''2.0,4.0,6.0,A2'']"

definition example_parse :: "string \<Rightarrow> dataframe option" where
  "example_parse t = (if t = example_csv then Some example_table else None)"

definition example_base :: string where
  "example_base = unlines
     [''metadata = {'',
      ''    'protocolName': 'Color Liquid Mixing - Bayesian Optimization','',
      ''}'',
      ''def run(protocol):'',
      ''    # BO ITERATION DATA - WILL BE REPLACED DYNAMICALLY'',
      ''    BO_DATA = {'',
      ''        'colorA': [], 'colorB': [], 'colorC': [], 'DispensePos': []'',
      ''    }'',
      ''    return BO_DATA'']"

definition example_world :: "string \<Rightarrow> world" where
  \<comment> \<open>a file system with the base protocol \<open>t\<close> and one table\<close>
  "example_world t =
     \<lparr>files = [''color_mixing.py'' \<mapsto> t, ''./data/BO_R2.csv'' \<mapsto> example_csv],
      writable = (\<lambda>p. True)\<rparr>"

definition example_bo :: "(string \<times> cell list) list" where
  \<comment> \<open>\<^verbatim>\<open>bo_data\<close> of the example table\<close>
  "example_bo = example_table"

definition example_data :: string where
  \<comment> \<open>the data section of the example table, for iteration 2\<close>
  \<open>example_data = py_join [nl]
     [''    # BO ITERATION DATA - BO2'',
      ''    BO_DATA = {'',
      ''        '',
      ''        "colorA": ['',
      ''                1.0,'',
      ''                2.0'',
      ''        ],'',
      ''        "colorB": ['',
      ''                3.0,'',
      ''                4.0'',
      ''        ],'',
      ''        "colorC": ['',
      ''                5.0,'',
      ''                6.0'',
      ''        ],'',
      ''        "DispensePos": ['',
      ''                "A1",'',
      ''                "A2"'',
      ''        ]'',
      '''',
      ''    }'']\<close>

definition example_output :: string where
  \<comment> \<open>the protocol generated from \<open>example_base\<close> and the example table, for iteration 2\<close>
  "example_output =
     unlines
       [''metadata = {'',
        ''    'protocolName': 'Color Liquid Mixing - BO Iteration 2','',
        ''}'',
        ''def run(protocol):'']
     @ example_data @ [nl]
     @ unlines [''    return BO_DATA'']"

definition spec_base :: string where
  \<comment> \<open>a base text with the marker and the label of the specification's scenario\<close>
  "spec_base = unlines
     [''metadata = {'',
      ''    'protocolName': 'Base','',
      ''}'',
      ''def run(protocol):'',
      ''    # ITERATION DATA - WILL BE REPLACED'',
      ''    BO_DATA = {}'',
      ''    return BO_DATA'']"

definition crlf_base :: string where
  \<comment> \<open>\<open>example_base\<close>, stored with a carriage return before each line feed\<close>
  "crlf_base = concat (map (\<lambda>l. l @ [cr, nl])
     [''metadata = {'',
      ''    'protocolName': 'Color Liquid Mixing - Bayesian Optimization','',
      ''}'',
      ''def run(protocol):'',
      ''    # BO ITERATION DATA - WILL BE REPLACED DYNAMICALLY'',
      ''    BO_DATA = {'',
      ''        'colorA': [], 'colorB': [], 'colorC': [], 'DispensePos': []'',
      ''    }'',
      ''    return BO_DATA''])"

definition unbalanced_base :: string where
  \<comment> \<open>the brace after the marker is never closed\<close>
  "unbalanced_base = unlines
     [''def run(protocol):'',
      ''    # BO ITERATION DATA - WILL BE REPLACED DYNAMICALLY'',
      ''    BO_DATA = {'',
      ''        'colorA': [],'',
      ''    return BO_DATA'']"

definition nested_base :: string where
  \<comment> \<open>the data literal holds a nested literal\<close>
  "nested_base = unlines
     [''def run(protocol):'',
      ''    # BO ITERATION DATA - WILL BE REPLACED DYNAMICALLY'',
      ''    BO_DATA = {'',
      ''        'colorA': [], 'limits': {'lo': 0, 'hi': 1},'',
      ''        'DispensePos': []'',
      ''    }'',
      ''    return BO_DATA'']"

definition two_regions_base :: string where
  "two_regions_base = unlines
     [''def run(protocol):'',
      ''    # BO ITERATION DATA - WILL BE REPLACED DYNAMICALLY'',
      ''    BO_DATA = {'',
      ''    }'',
      ''    first = BO_DATA'',
      ''    # BO ITERATION DATA - WILL BE REPLACED DYNAMICALLY'',
      ''    BO_DATA = {'',
      ''        'colorA': [0.5]'',
      ''    }'',
      ''    return first'']"

definition duplicated_table :: dataframe where
  \<comment> \<open>no column colorC, and two columns with the label colorA\<close>
  "duplicated_table =
     [(''colorA'', [CFloat ''1.0'']), (''colorA'', [CFloat ''2.0'']),
      (''colorB'', [CFloat ''3.0'']), (''DispensePos'', [CStr ''A1''])]"

definition table_without_colorC :: dataframe where
  "table_without_colorC =
     [(''colorA'', [CFloat ''1.0'']), (''colorB'', [CFloat ''3.0'']),
      (''DispensePos'', [CStr ''A1''])]"

definition nested_head :: string where
  "nested_head = unlines [''def run(protocol):'']"

definition nested_body :: string where
  "nested_body = nl # ''        'colorA': [], 'limits': {'lo': 0, 'hi': 1''"

definition nested_rest :: string where
  "nested_rest = '','' @ [nl]
     @ unlines [''        'DispensePos': []'', ''    }'', ''    return BO_DATA'']"

definition nested_patched :: string where
  \<comment> \<open>what the substitution makes of \<open>nested_base\<close>\<close>
  "nested_patched = nested_head @ example_data @ nested_rest"

definition two_regions_patched :: string where
  \<comment> \<open>what the substitution makes of \<open>two_regions_base\<close>\<close>
  "two_regions_patched =
     unlines [''def run(protocol):'']
     @ example_data @ [nl]
     @ unlines [''    first = BO_DATA'']
     @ example_data @ [nl]
     @ unlines [''    return first'']"

definition first_region_patched :: string where
  \<comment> \<open>\<open>two_regions_base\<close> with the first region alone replaced\<close>
  "first_region_patched =
     unlines [''def run(protocol):'']
     @ example_data @ [nl]
     @ unlines
        [''    first = BO_DATA'',
         ''    # BO ITERATION DATA - WILL BE REPLACED DYNAMICALLY'',
         ''    BO_DATA = {'',
         ''        'colorA': [0.5]'',
         ''    }'',
         ''    return first'']"

definition two_body1 :: string where
  "two_body1 = nl # ''    ''"

definition two_middle :: string where
  "two_middle = nl # unlines [''    first = BO_DATA'']"

definition two_body2 :: string where
  "two_body2 = nl # ''        'colorA': [0.5]'' @ nl # ''    ''"

definition two_rest :: string where
  "two_rest = nl # unlines [''    return first'']"

definition label_twice :: string where
  \<comment> \<open>a base text with the protocol name on two lines\<close>
  "label_twice = unlines [protocol_name, protocol_name]"

definition permuted_table :: dataframe where
  \<comment> \<open>the columns of \<open>example_table\<close>, assembled in another order\<close>
  "permuted_table =
     [(''DispensePos'', [CStr ''A1'', CStr ''A2'']),
      (''colorC'', [CFloat ''5.0'', CFloat ''6.0'']),
      (''colorA'', [CFloat ''1.0'', CFloat ''2.0'']),
      (''colorB'', [CFloat ''3.0'', CFloat ''4.0''])]"

section \<open>Properties\<close>

subsection \<open>Reading a text file\<close>



subsection \<open>The generators, step by step\<close>

lemma generate_protocol_from_dataframe_steps:
  "generate_protocol_from_dataframe w df n out =
     (case bo_data_of df of
        Inl e \<Rightarrow> (w, Inl e)
      | Inr bo \<Rightarrow>
         (case files w base_protocol_path of
            None \<Rightarrow> (w, Inr None)
          | Some t \<Rightarrow>
             (case expand_template (data_section bo n) of
                Inl e \<Rightarrow> (w, Inl e)
              | Inr d \<Rightarrow>
                 (case write_file w (protocol_path_of out n)
                         (relabel n (re_sub d (universal_newlines t))) of
                    None \<Rightarrow> (w, Inr None)
                  | Some w' \<Rightarrow> (w', Inr (Some (protocol_path_of out n)))))))"
  by (simp add: generate_protocol_from_dataframe_def bo_data_of_def relabel_def read_text_def
        protocol_path_of_def Let_def split: sum.split option.split)

lemma generate_protocol_from_csv_steps:
  "generate_protocol_from_csv parse w p n out =
     (case read_csv parse w p of
        None \<Rightarrow> (w, Inr None)
      | Some df \<Rightarrow>
     (case bo_data_of df of
        Inl e \<Rightarrow> (w, Inl e)
      | Inr bo \<Rightarrow>
         (case files w base_protocol_path of
            None \<Rightarrow> (w, Inr None)
          | Some t \<Rightarrow>
             (case expand_template (data_section bo n) of
                Inl e \<Rightarrow> (w, Inl e)
              | Inr d \<Rightarrow>
                 (case write_file w (protocol_path_of out n)
                         (relabel n (re_sub d (universal_newlines t))) of
                    None \<Rightarrow> (w, Inr None)
                  | Some w' \<Rightarrow> (w', Inr (Some (protocol_path_of out n))))))))"
  by (simp add: generate_protocol_from_csv_def bo_data_of_def relabel_def read_text_def
        protocol_path_of_def Let_def split: sum.split option.split)

lemma example_read_csv:
  "read_csv example_parse (example_world t) ''./data/BO_R2.csv'' = Some example_table"
  by (simp add: read_csv_def example_world_def example_parse_def)

subsection \<open>The iteration number\<close>












subsection \<open>The two generators agree\<close>

text \<open>
  C10. When the table is the one that \<^verbatim>\<open>pd.read_csv\<close> reads from the path, the
  generator that starts from the path and the generator that starts from the table do the
  same: the same text written to the same file, the same value returned, the same
  exception raised.
\<close>

theorem csv_and_dataframe_paths_agree:
  assumes "read_csv parse w csv_file_path = Some df"
  shows "generate_protocol_from_csv parse w csv_file_path n out
           = generate_protocol_from_dataframe w df n out"
  using assms
  by (simp add: generate_protocol_from_csv_def generate_protocol_from_dataframe_def)

theorem csv_and_dataframe_paths_agree_witness:
  "read_csv example_parse (example_world example_base) ''./data/BO_R2.csv'' = Some example_table
   \<and> generate_protocol_from_csv example_parse (example_world example_base)
         ''./data/BO_R2.csv'' 2 ''.''
       = generate_protocol_from_dataframe (example_world example_base) example_table 2 ''.''"
  using example_read_csv[of example_base]
    csv_and_dataframe_paths_agree[OF example_read_csv[of example_base], of 2 "''.''"]
  by simp

subsection \<open>Regions and their substitution\<close>

lemma match_pattern_region:
  assumes "body \<noteq> []" "CHR ''}'' \<notin> set body"
  shows "match_pattern (pattern_prefix @ body @ CHR ''}'' # rest) = Some rest"
proof -
  have tw: "takeWhile (\<lambda>c. c \<noteq> CHR ''}'') (body @ CHR ''}'' # rest) = body"
    using assms(2) by (induction body) auto
  have dw: "dropWhile (\<lambda>c. c \<noteq> CHR ''}'') (body @ CHR ''}'' # rest) = CHR ''}'' # rest"
    using assms(2) by (induction body) auto
  show ?thesis
    using assms(1) by (simp add: match_pattern_def tw dw)
qed

lemma match_pattern_SomeD:
  assumes "match_pattern s = Some rest"
  shows "\<exists>body. body \<noteq> [] \<and> CHR ''}'' \<notin> set body \<and> s = pattern_prefix @ body @ CHR ''}'' # rest"
proof -
  let ?r = "drop (length pattern_prefix) s"
  let ?body = "takeWhile (\<lambda>c. c \<noteq> CHR ''}'') ?r"
  let ?rest = "dropWhile (\<lambda>c. c \<noteq> CHR ''}'') ?r"
  from assms have p: "prefix pattern_prefix s" and b: "?body \<noteq> []" and r: "?rest \<noteq> []"
    and e: "rest = tl ?rest"
    by (auto simp: match_pattern_def Let_def split: if_splits)
  from p have s: "s = pattern_prefix @ ?r"
    by (metis append_eq_conv_conj prefixE)
  from r have "hd ?rest = CHR ''}''"
    using hd_dropWhile[of "\<lambda>c. c \<noteq> CHR ''}''" ?r] by auto
  with r e have "?rest = CHR ''}'' # rest"
    by (cases ?rest) auto
  then have "?r = ?body @ CHR ''}'' # rest"
    by (metis takeWhile_dropWhile_id)
  moreover have "CHR ''}'' \<notin> set ?body"
    by (auto dest: set_takeWhileD)
  ultimately show ?thesis
    using b s by metis
qed

lemma match_pattern_Nil [simp]: "match_pattern [] = None"
  by (simp add: match_pattern_def pattern_prefix_def)

lemma re_sub_match:
  assumes "match_pattern s = Some rest"
  shows "re_sub d s = d @ re_sub d rest"
  using assms by (cases s) auto

lemma region_at_Cons: "region_at (c # cs) (Suc i) = region_at cs i"
  by (simp add: region_at_def)

lemma re_sub_skip:
  assumes "\<forall>i<length a. \<not> region_at (a @ x) i"
  shows "re_sub d (a @ x) = a @ re_sub d x"
  using assms
proof (induction a)
  case Nil
  then show ?case by simp
next
  case (Cons c cs)
  from Cons.prems have "\<not> region_at ((c # cs) @ x) 0"
    by blast
  then have m: "match_pattern (c # cs @ x) = None"
    by (simp add: region_at_def)
  have "\<forall>i<length cs. \<not> region_at (cs @ x) i"
    using Cons.prems region_at_Cons[of c "cs @ x"] by fastforce
  then have "re_sub d (cs @ x) = cs @ re_sub d x"
    by (rule Cons.IH)
  with m show ?case by simp
qed

lemma re_sub_no_region:
  assumes "\<forall>i. \<not> region_at t i"
  shows "re_sub d t = t"
  using re_sub_skip[of t "[]" d] assms by simp

lemma no_region_in_iff: "no_region_in a x = (\<forall>i<length a. \<not> region_at (a @ x) i)"
proof (induction a)
  case Nil
  then show ?case by simp
next
  case (Cons c cs)
  have "(\<forall>i<length (c # cs). \<not> region_at ((c # cs) @ x) i)
          = (\<not> region_at ((c # cs) @ x) 0 \<and> (\<forall>i<length cs. \<not> region_at (cs @ x) i))"
    using region_at_Cons[of c "cs @ x"] by (auto simp: less_Suc_eq_0_disj)
  with Cons show ?case by (simp add: region_at_def)
qed

lemma re_sub_outside:
  assumes "no_region_in a x"
  shows "re_sub d (a @ x) = a @ re_sub d x"
  using assms by (simp add: no_region_in_iff re_sub_skip)

subsection \<open>Replacement of substrings\<close>

lemma py_replace_single:
  "py_replace [x] new s = concat (map (\<lambda>c. if c = x then new else [c]) s)"
  by (induction s) auto



lemma py_replace_absent:
  assumes "old \<noteq> []"
  shows "\<not> occurs_in old t \<Longrightarrow> py_replace old new t = t"
  using assms by (induction t) auto

lemma py_replace_at:
  assumes "old \<noteq> []"
  shows "py_replace old new (old @ t) = new @ py_replace old new t"
proof -
  obtain c cs where "old @ t = c # cs"
    using assms by (cases old) auto
  then show ?thesis
    using assms by (metis append_eq_conv_conj prefixI py_replace.simps(2))
qed

subsection \<open>The shape of the data section\<close>

lemma expand_template_plain:
  "c \<noteq> bslash \<Longrightarrow>
     expand_template (c # s) = (case expand_template s of Inl e \<Rightarrow> Inl e | Inr r \<Rightarrow> Inr (c # r))"
  by (cases s) auto







subsection \<open>The protocol name and the regions do not overlap\<close>


lemma protocol_name_facts:
  "protocol_name \<noteq> []" "CHR ''}'' \<notin> set protocol_name"
  by (simp_all add: protocol_name_def)






subsection \<open>The frame of a patch\<close>

lemma relabel_Nil [simp]: "relabel n [] = []"
  by (simp add: relabel_def protocol_name_def)



subsection \<open>The example, evaluated\<close>

lemma example_bo_data: "bo_data_of example_table = Inr example_bo"
  by (simp add: bo_data_of_def column_def example_table_def example_bo_def)

lemma example_expand: "expand_template (data_section example_bo 2) = Inr example_data"
  by code_simp

lemma example_patched:
  "relabel 2 (re_sub example_data (universal_newlines example_base)) = example_output"
  by code_simp

lemma spec_patched: "relabel 2 (re_sub example_data (universal_newlines spec_base)) = spec_base"
  by code_simp

lemma example_files:
  "files (example_world t) base_protocol_path = Some t"
  "writable (example_world t) p"
  by (simp_all add: example_world_def base_protocol_path_def)

lemma example_path: "protocol_path_of ''.'' 2 = ''./color_mixing_BO2.py''"
  by code_simp

lemma example_generate:
  "generate_protocol_from_dataframe (example_world t) example_table 2 ''.''
     = ((example_world t)\<lparr>files := (files (example_world t))
           (''./color_mixing_BO2.py'' \<mapsto>
              relabel 2 (re_sub example_data (universal_newlines t)))\<rparr>,
        Inr (Some ''./color_mixing_BO2.py''))"
  by (simp add: generate_protocol_from_dataframe_steps example_bo_data example_expand
        example_files example_path write_file_def)

subsection \<open>The scenario of the specification\<close>

text \<open>
  C1 (as stated, refuted). A base text with the marker line
  \<^verbatim>\<open># ITERATION DATA - WILL BE REPLACED\<close>, the literal \<^verbatim>\<open>BO_DATA = {}\<close> and the label
  \<^verbatim>\<open>'protocolName': 'Base',\<close> has neither the marker nor the label that the generator
  looks for: the generated protocol is the base text, unchanged.
\<close>

theorem spec_scenario_counterexample:
  "generate_protocol_from_dataframe (example_world spec_base) example_table 2 ''.''
     = ((example_world spec_base)\<lparr>files := (files (example_world spec_base))
           (''./color_mixing_BO2.py'' \<mapsto> spec_base)\<rparr>,
        Inr (Some ''./color_mixing_BO2.py''))
   \<and> \<not> occurs_in ''Iteration 2'' spec_base \<and> \<not> occurs_in ''colorA'' spec_base"
proof -
  have "\<not> occurs_in ''Iteration 2'' spec_base" "\<not> occurs_in ''colorA'' spec_base"
    by code_simp+
  then show ?thesis
    by (simp add: example_generate spec_patched)
qed

text \<open>
  C1 (amended). With the marker and the label of the code, the same table and iteration 2
  give the text \<open>example_output\<close>: the region is replaced by the comment
  \<^verbatim>\<open># BO ITERATION DATA - BO2\<close> and the JSON rendering of the four columns, the label
  becomes \<^verbatim>\<open>'protocolName': 'Color Liquid Mixing - BO Iteration 2',\<close>, and every other
  line is the line of the base text.
\<close>

theorem generated_example_protocol:
  "generate_protocol_from_dataframe (example_world example_base) example_table 2 ''.''
     = ((example_world example_base)\<lparr>files := (files (example_world example_base))
           (''./color_mixing_BO2.py'' \<mapsto> example_output)\<rparr>,
        Inr (Some ''./color_mixing_BO2.py''))"
  by (simp add: example_generate example_patched)

subsection \<open>A base text without a region\<close>

lemma unbalanced_patched:
  "relabel 2 (re_sub example_data (universal_newlines unbalanced_base)) = unbalanced_base"
  by code_simp

lemma unbalanced_no_region: "no_region_in (universal_newlines unbalanced_base) []"
  by code_simp

lemma unbalanced_no_region': "no_region_in unbalanced_base []"
  by code_simp

text \<open>
  C2 (as stated, refuted). The base text \<open>unbalanced_base\<close> has the marker and an open
  brace that is never closed, so \<^verbatim>\<open>pattern\<close> matches nowhere. The generator raises
  nothing: it writes the base text to the destination and returns the path.
\<close>

theorem unbalanced_template_counterexample:
  "no_region_in unbalanced_base []
   \<and> generate_protocol_from_dataframe (example_world unbalanced_base) example_table 2 ''.''
     = ((example_world unbalanced_base)\<lparr>files := (files (example_world unbalanced_base))
           (''./color_mixing_BO2.py'' \<mapsto> unbalanced_base)\<rparr>,
        Inr (Some ''./color_mixing_BO2.py''))"
  by (simp add: example_generate unbalanced_patched unbalanced_no_region')

text \<open>
  C2 (amended). Take the base text as the generators read it (a carriage return, alone
  or before a line feed, read as a line feed). When \<^verbatim>\<open>pattern\<close> matches nowhere in it
  (no marker, or no close brace after it), and the table has the four columns, the
  replacement text compiles and the destination can be written, both generators write
  the text as read, changed by the relabelling alone, and return the path of the protocol.
\<close>

theorem no_region_no_failure:
  assumes "files w base_protocol_path = Some t"
    and "no_region_in (universal_newlines t) []"
    and "bo_data_of df = Inr bo"
    and "expand_template (data_section bo n) = Inr d"
    and "writable w (protocol_path_of out n)"
  shows "generate_protocol_from_dataframe w df n out
           = (w\<lparr>files := (files w)(protocol_path_of out n \<mapsto>
                  relabel n (universal_newlines t))\<rparr>,
              Inr (Some (protocol_path_of out n)))
         \<and> (read_csv parse w p = Some df \<longrightarrow>
              generate_protocol_from_csv parse w p n out
                = (w\<lparr>files := (files w)(protocol_path_of out n \<mapsto>
                       relabel n (universal_newlines t))\<rparr>,
                   Inr (Some (protocol_path_of out n))))"
proof -
  from assms(2) have "re_sub d (universal_newlines t) = universal_newlines t"
    using re_sub_outside[of "universal_newlines t" "[]" d] by simp
  with assms(1,3-5) show ?thesis
    by (simp add: generate_protocol_from_dataframe_steps generate_protocol_from_csv_steps
          write_file_def)
qed

theorem no_region_no_failure_witness:
  "files (example_world unbalanced_base) base_protocol_path = Some unbalanced_base
   \<and> no_region_in (universal_newlines unbalanced_base) []
   \<and> bo_data_of example_table = Inr example_bo
   \<and> expand_template (data_section example_bo 2) = Inr example_data
   \<and> writable (example_world unbalanced_base) (protocol_path_of ''.'' 2)
   \<and> read_csv example_parse (example_world unbalanced_base) ''./data/BO_R2.csv''
       = Some example_table
   \<and> generate_protocol_from_dataframe (example_world unbalanced_base) example_table 2 ''.''
       = ((example_world unbalanced_base)\<lparr>files := (files (example_world unbalanced_base))
            (protocol_path_of ''.'' 2 \<mapsto> relabel 2 (universal_newlines unbalanced_base))\<rparr>,
          Inr (Some (protocol_path_of ''.'' 2)))
   \<and> generate_protocol_from_csv example_parse (example_world unbalanced_base)
         ''./data/BO_R2.csv'' 2 ''.''
       = ((example_world unbalanced_base)\<lparr>files := (files (example_world unbalanced_base))
            (protocol_path_of ''.'' 2 \<mapsto> relabel 2 (universal_newlines unbalanced_base))\<rparr>,
          Inr (Some (protocol_path_of ''.'' 2)))"
  using example_files[of unbalanced_base] unbalanced_no_region example_bo_data example_expand
    no_region_no_failure[OF example_files(1) unbalanced_no_region example_bo_data
      example_expand example_files(2), of "''.''" example_parse "''./data/BO_R2.csv''"]
    example_read_csv[of unbalanced_base]
  by simp

text \<open>
  A base text stored with carriage returns before the line feeds is read without them,
  so that \<^verbatim>\<open>pattern\<close> matches it: the generated protocol is \<open>example_output\<close>, as it
  is for \<open>example_base\<close>.
\<close>

lemma crlf_base_read: "universal_newlines crlf_base = example_base"
  by code_simp

lemma crlf_base_generated:
  "generate_protocol_from_dataframe (example_world crlf_base) example_table 2 ''.''
     = ((example_world crlf_base)\<lparr>files := (files (example_world crlf_base))
           (''./color_mixing_BO2.py'' \<mapsto> example_output)\<rparr>,
        Inr (Some ''./color_mixing_BO2.py''))"
proof -
  have "universal_newlines example_base = example_base"
    by code_simp
  with example_patched
  have "relabel 2 (re_sub example_data (universal_newlines crlf_base)) = example_output"
    by (simp add: crlf_base_read)
  then show ?thesis
    by (simp add: example_generate)
qed

subsection \<open>Where a region ends\<close>

lemma nested_split:
  "nested_base = nested_head @ pattern_prefix @ nested_body @ CHR ''}'' # nested_rest"
  by code_simp

lemma nested_re_sub: "re_sub example_data nested_base = nested_patched"
  by code_simp

text \<open>
  C3 (as stated, refuted). In \<open>nested_base\<close> the data literal holds the nested literal
  \<^verbatim>\<open>{'lo': 0, 'hi': 1}\<close>. The match ends at the close brace of the nested literal: the
  rest of the data literal stays in the text, after the new data section.
\<close>

theorem nested_literal_counterexample:
  "re_sub example_data nested_base
     = unlines [''def run(protocol):'']
       @ example_data @ '','' @ [nl]
       @ unlines [''        'DispensePos': []'', ''    }'', ''    return BO_DATA'']
   \<and> re_sub example_data nested_base
     \<noteq> unlines [''def run(protocol):''] @ example_data @ [nl]
       @ unlines [''    return BO_DATA'']"
proof -
  have "nested_patched = unlines [''def run(protocol):'']
       @ example_data @ '','' @ [nl]
       @ unlines [''        'DispensePos': []'', ''    }'', ''    return BO_DATA'']"
    by (simp add: nested_patched_def nested_head_def nested_rest_def)
  moreover have "nested_patched \<noteq> unlines [''def run(protocol):''] @ example_data @ [nl]
       @ unlines [''    return BO_DATA'']"
    by code_simp
  ultimately show ?thesis
    by (simp only: nested_re_sub) simp
qed

text \<open>
  C3 (amended). A region is the marker, the assignment with its open brace, a non-empty
  text without a close brace and the first close brace after it; every match has this
  form. The substitution replaces the leftmost region and goes on with the text after
  its close brace.
\<close>

theorem region_ends_at_first_close_brace:
  "(body \<noteq> [] \<and> CHR ''}'' \<notin> set body
      \<longrightarrow> match_pattern (pattern_prefix @ body @ CHR ''}'' # rest) = Some rest)
   \<and> (body \<noteq> [] \<and> CHR ''}'' \<notin> set body
       \<and> no_region_in a (pattern_prefix @ body @ CHR ''}'' # rest)
      \<longrightarrow> re_sub d (a @ pattern_prefix @ body @ CHR ''}'' # rest) = a @ d @ re_sub d rest)
   \<and> (match_pattern s = Some rest'
      \<longrightarrow> (\<exists>b. b \<noteq> [] \<and> CHR ''}'' \<notin> set b \<and> s = pattern_prefix @ b @ CHR ''}'' # rest'))"
proof (intro conjI impI)
  assume "body \<noteq> [] \<and> CHR ''}'' \<notin> set body"
  then show "match_pattern (pattern_prefix @ body @ CHR ''}'' # rest) = Some rest"
    by (simp add: match_pattern_region)
next
  assume h: "body \<noteq> [] \<and> CHR ''}'' \<notin> set body
       \<and> no_region_in a (pattern_prefix @ body @ CHR ''}'' # rest)"
  then have "match_pattern (pattern_prefix @ body @ CHR ''}'' # rest) = Some rest"
    by (simp add: match_pattern_region)
  then have "re_sub d (pattern_prefix @ body @ CHR ''}'' # rest) = d @ re_sub d rest"
    by (rule re_sub_match)
  moreover from h
  have "re_sub d (a @ pattern_prefix @ body @ CHR ''}'' # rest)
          = a @ re_sub d (pattern_prefix @ body @ CHR ''}'' # rest)"
    by (intro re_sub_outside) simp
  ultimately show "re_sub d (a @ pattern_prefix @ body @ CHR ''}'' # rest) = a @ d @ re_sub d rest"
    by simp
next
  assume "match_pattern s = Some rest'"
  then show "\<exists>b. b \<noteq> [] \<and> CHR ''}'' \<notin> set b \<and> s = pattern_prefix @ b @ CHR ''}'' # rest'"
    by (rule match_pattern_SomeD)
qed

theorem region_ends_at_first_close_brace_witness:
  "nested_body \<noteq> [] \<and> CHR ''}'' \<notin> set nested_body
   \<and> no_region_in nested_head (pattern_prefix @ nested_body @ CHR ''}'' # nested_rest)
   \<and> match_pattern (pattern_prefix @ nested_body @ CHR ''}'' # nested_rest) = Some nested_rest
   \<and> re_sub example_data (nested_head @ pattern_prefix @ nested_body @ CHR ''}'' # nested_rest)
       = nested_head @ example_data @ re_sub example_data nested_rest"
proof -
  have b: "nested_body \<noteq> []" "CHR ''}'' \<notin> set nested_body"
    by code_simp+
  have n: "no_region_in nested_head (pattern_prefix @ nested_body @ CHR ''}'' # nested_rest)"
    by code_simp
  have m: "match_pattern (pattern_prefix @ nested_body @ CHR ''}'' # nested_rest) = Some nested_rest"
    using region_ends_at_first_close_brace[of nested_body nested_rest] b by blast
  from b n m
    region_ends_at_first_close_brace[of nested_body nested_rest nested_head example_data
      "pattern_prefix @ nested_body @ CHR ''}'' # nested_rest" nested_rest]
  show ?thesis
    by simp
qed

subsection \<open>Several regions\<close>

lemma two_regions_patch:
  "relabel 2 (re_sub example_data (universal_newlines two_regions_base)) = two_regions_patched"
  by code_simp

text \<open>
  C4 (as stated, refuted). \<open>two_regions_base\<close> has two regions. The generated protocol
  has the new data section in the place of each of them; it is not the text in which
  the first region alone is replaced.
\<close>

theorem two_regions_counterexample:
  "generate_protocol_from_dataframe (example_world two_regions_base) example_table 2 ''.''
     = ((example_world two_regions_base)\<lparr>files := (files (example_world two_regions_base))
           (''./color_mixing_BO2.py'' \<mapsto> two_regions_patched)\<rparr>,
        Inr (Some ''./color_mixing_BO2.py''))
   \<and> two_regions_patched \<noteq> first_region_patched"
proof -
  have "two_regions_patched \<noteq> first_region_patched"
    by code_simp
  then show ?thesis
    by (simp add: example_generate two_regions_patch)
qed

text \<open>
  C4 (amended). The substitution replaces every region, from the left, by the same data
  section: a text with two regions has both replaced, the text before, between and after
  them stays, and the substitution goes on in the text after the second.
\<close>

theorem every_region_replaced:
  assumes "b1 \<noteq> []" "CHR ''}'' \<notin> set b1" "b2 \<noteq> []" "CHR ''}'' \<notin> set b2"
    and "no_region_in a (pattern_prefix @ b1 @ CHR ''}'' # m @ pattern_prefix @ b2 @ CHR ''}'' # rest)"
    and "no_region_in m (pattern_prefix @ b2 @ CHR ''}'' # rest)"
  shows "re_sub d (a @ pattern_prefix @ b1 @ CHR ''}'' # m @ pattern_prefix @ b2 @ CHR ''}'' # rest)
           = a @ d @ m @ d @ re_sub d rest"
proof -
  let ?r2 = "pattern_prefix @ b2 @ CHR ''}'' # rest"
  let ?r1 = "pattern_prefix @ b1 @ CHR ''}'' # m @ ?r2"
  have "re_sub d (a @ ?r1) = a @ re_sub d ?r1"
    using assms(5) by (rule re_sub_outside)
  also have "re_sub d ?r1 = d @ re_sub d (m @ ?r2)"
    by (rule re_sub_match) (rule match_pattern_region[OF assms(1,2)])
  also have "re_sub d (m @ ?r2) = m @ re_sub d ?r2"
    using assms(6) by (rule re_sub_outside)
  also have "re_sub d ?r2 = d @ re_sub d rest"
    by (rule re_sub_match) (rule match_pattern_region[OF assms(3,4)])
  finally show ?thesis .
qed

theorem every_region_replaced_witness:
  "two_body1 \<noteq> [] \<and> CHR ''}'' \<notin> set two_body1 \<and> two_body2 \<noteq> [] \<and> CHR ''}'' \<notin> set two_body2
   \<and> no_region_in nested_head (pattern_prefix @ two_body1 @ CHR ''}'' # two_middle
        @ pattern_prefix @ two_body2 @ CHR ''}'' # two_rest)
   \<and> no_region_in two_middle (pattern_prefix @ two_body2 @ CHR ''}'' # two_rest)
   \<and> two_regions_base = nested_head @ pattern_prefix @ two_body1 @ CHR ''}'' # two_middle
        @ pattern_prefix @ two_body2 @ CHR ''}'' # two_rest
   \<and> re_sub example_data (nested_head @ pattern_prefix @ two_body1 @ CHR ''}'' # two_middle
        @ pattern_prefix @ two_body2 @ CHR ''}'' # two_rest)
       = nested_head @ example_data @ two_middle @ example_data @ re_sub example_data two_rest"
proof -
  have b: "two_body1 \<noteq> []" "CHR ''}'' \<notin> set two_body1" "two_body2 \<noteq> []"
      "CHR ''}'' \<notin> set two_body2"
    by code_simp+
  have n1: "no_region_in nested_head (pattern_prefix @ two_body1 @ CHR ''}'' # two_middle
        @ pattern_prefix @ two_body2 @ CHR ''}'' # two_rest)"
    by code_simp
  have n2: "no_region_in two_middle (pattern_prefix @ two_body2 @ CHR ''}'' # two_rest)"
    by code_simp
  have s: "two_regions_base = nested_head @ pattern_prefix @ two_body1 @ CHR ''}'' # two_middle
        @ pattern_prefix @ two_body2 @ CHR ''}'' # two_rest"
    by code_simp
  from b n1 n2 s every_region_replaced[OF b n1 n2, of example_data]
  show ?thesis
    by simp
qed

subsection \<open>The frame of a patch, for the generators\<close>



subsection \<open>The relabelling\<close>

lemma py_replace_before:
  "old \<noteq> [] \<Longrightarrow> absent_before old a x \<Longrightarrow> py_replace old new (a @ x) = a @ py_replace old new x"
  by (induction a) auto

lemma label_twice_patched:
  "relabel 2 (re_sub example_data (universal_newlines label_twice))
     = unlines [protocol_name_of 2, protocol_name_of 2]"
  by code_simp

text \<open>
  C8 (as stated, refuted). In a base text with the protocol name on two lines, both
  occurrences are replaced.
\<close>

theorem relabel_twice_counterexample:
  "generate_protocol_from_dataframe (example_world label_twice) example_table 2 ''.''
     = ((example_world label_twice)\<lparr>files := (files (example_world label_twice))
           (''./color_mixing_BO2.py'' \<mapsto> unlines [protocol_name_of 2, protocol_name_of 2])\<rparr>,
        Inr (Some ''./color_mixing_BO2.py''))
   \<and> unlines [protocol_name_of 2, protocol_name_of 2] \<noteq> unlines [protocol_name_of 2, protocol_name]"
proof -
  have "unlines [protocol_name_of 2, protocol_name_of 2] \<noteq> unlines [protocol_name_of 2, protocol_name]"
    by code_simp
  then show ?thesis
    by (simp add: example_generate label_twice_patched)
qed

text \<open>
  C8 (amended). The relabelling replaces every occurrence of the protocol name, from the
  left: the leftmost occurrence is replaced and the relabelling goes on in the text after
  it. A text without the name is returned as it is; the generator then writes the text it
  has after the data substitution and returns the path of the protocol, as it does when
  the name is there.
\<close>

theorem relabel_every_occurrence:
  "(absent_before protocol_name a (protocol_name @ b)
      \<longrightarrow> relabel n (a @ protocol_name @ b) = a @ protocol_name_of n @ relabel n b)
   \<and> (absent_before protocol_name t [] \<longrightarrow> relabel n t = t)
   \<and> (files w base_protocol_path = Some t0 \<and> bo_data_of df = Inr bo
       \<and> expand_template (data_section bo n) = Inr d
       \<and> writable w (protocol_path_of out n)
       \<and> absent_before protocol_name (re_sub d (universal_newlines t0)) []
      \<longrightarrow> generate_protocol_from_dataframe w df n out
           = (w\<lparr>files := (files w)(protocol_path_of out n \<mapsto>
                  re_sub d (universal_newlines t0))\<rparr>,
              Inr (Some (protocol_path_of out n))))"
proof (intro conjI impI)
  assume "absent_before protocol_name a (protocol_name @ b)"
  then show "relabel n (a @ protocol_name @ b) = a @ protocol_name_of n @ relabel n b"
    unfolding relabel_def
    by (simp add: py_replace_before[OF protocol_name_facts(1)]
          py_replace_at[OF protocol_name_facts(1)])
next
  assume "absent_before protocol_name t []"
  then show "relabel n t = t"
    unfolding relabel_def
    using py_replace_before[OF protocol_name_facts(1), of t "[]"] protocol_name_facts(1)
    by simp
next
  assume h: "files w base_protocol_path = Some t0 \<and> bo_data_of df = Inr bo
       \<and> expand_template (data_section bo n) = Inr d
       \<and> writable w (protocol_path_of out n)
       \<and> absent_before protocol_name (re_sub d (universal_newlines t0)) []"
  then have "relabel n (re_sub d (universal_newlines t0)) = re_sub d (universal_newlines t0)"
    unfolding relabel_def
    using py_replace_before[OF protocol_name_facts(1), of "re_sub d (universal_newlines t0)" "[]"]
      protocol_name_facts(1)
    by simp
  with h show "generate_protocol_from_dataframe w df n out
           = (w\<lparr>files := (files w)(protocol_path_of out n \<mapsto>
                  re_sub d (universal_newlines t0))\<rparr>,
              Inr (Some (protocol_path_of out n)))"
    by (simp add: generate_protocol_from_dataframe_steps write_file_def)
qed

theorem relabel_every_occurrence_witness:
  "absent_before protocol_name ''name = '' (protocol_name @ label_twice)
   \<and> relabel 2 (''name = '' @ protocol_name @ label_twice)
       = ''name = '' @ protocol_name_of 2 @ relabel 2 label_twice
   \<and> absent_before protocol_name spec_base []
   \<and> relabel 2 spec_base = spec_base
   \<and> absent_before protocol_name (re_sub example_data (universal_newlines spec_base)) []
   \<and> generate_protocol_from_dataframe (example_world spec_base) example_table 2 ''.''
       = ((example_world spec_base)\<lparr>files := (files (example_world spec_base))
            (protocol_path_of ''.'' 2 \<mapsto>
               re_sub example_data (universal_newlines spec_base))\<rparr>,
          Inr (Some (protocol_path_of ''.'' 2)))"
proof -
  have 1: "absent_before protocol_name ''name = '' (protocol_name @ label_twice)"
    by code_simp
  have 2: "absent_before protocol_name spec_base []"
    by code_simp
  have 3: "absent_before protocol_name (re_sub example_data (universal_newlines spec_base)) []"
    by code_simp
  from 1 2 3 example_files[of spec_base] example_bo_data example_expand
    relabel_every_occurrence[of "''name = ''" label_twice 2 spec_base
      "example_world spec_base" spec_base example_table example_bo example_data "''.''"]
  show ?thesis
    by blast
qed

subsection \<open>The columns of the table\<close>

lemma column_mset:
  assumes "mset df1 = mset df2"
  shows "column df1 k = column df2 k"
proof -
  let ?f1 = "filter (\<lambda>kv. fst kv = k) df1" and ?f2 = "filter (\<lambda>kv. fst kv = k) df2"
  have m: "mset ?f1 = mset ?f2"
    using assms by (simp add: mset_filter)
  then have l: "length ?f1 = length ?f2"
    by (metis size_mset)
  show ?thesis
  proof (cases ?f1)
    case Nil
    with l have "?f2 = []" by simp
    with Nil show ?thesis by (simp add: column_def)
  next
    case (Cons x xs)
    note c1 = Cons
    show ?thesis
    proof (cases xs)
      case Nil
      with c1 l obtain y where y: "?f2 = [y]"
        by (cases ?f2) auto
      with m c1 Nil have "x = y" by simp
      with c1 Nil y show ?thesis by (simp add: column_def)
    next
      case (Cons x' xs')
      with c1 l obtain y y' ys where "?f2 = y # y' # ys"
        by (cases ?f2; cases "tl ?f2") auto
      with c1 Cons show ?thesis by (simp add: column_def)
    qed
  qed
qed

lemma column_missing: "k \<notin> fst ` set df \<Longrightarrow> column df k = Inl (KeyError k)"
proof -
  assume "k \<notin> fst ` set df"
  then have "filter (\<lambda>kv. fst kv = k) df = []"
    by (auto simp: filter_empty_conv)
  then show ?thesis by (simp add: column_def)
qed

lemma column_distinct:
  assumes "distinct (map fst df)"
  shows "column df k \<noteq> Inl AttributeError"
proof -
  have "length (filter (\<lambda>kv. fst kv = k) df) \<le> 1"
    using assms
  proof (induction df)
    case Nil
    then show ?case by simp
  next
    case (Cons a df)
    then show ?case
      by (auto simp: filter_empty_conv image_iff)
  qed
  then show ?thesis
    by (auto simp: column_def split: list.splits)
qed

lemma column_error:
  "column df k = Inl e \<Longrightarrow> e = AttributeError \<or> (e = KeyError k \<and> k \<notin> fst ` set df)"
  by (auto simp: column_def filter_empty_conv image_iff split: list.splits)

lemma bo_data_of_columns:
  "bo_data_of df = Inr bo \<longleftrightarrow>
     (\<exists>a b c p. column df ''colorA'' = Inr a \<and> column df ''colorB'' = Inr b
        \<and> column df ''colorC'' = Inr c \<and> column df ''DispensePos'' = Inr p
        \<and> bo = [(''colorA'', a), (''colorB'', b), (''colorC'', c), (''DispensePos'', p)])"
  by (auto simp: bo_data_of_def split: sum.splits)

lemma bo_data_of_error:
  assumes "bo_data_of df = Inl e"
  shows "\<exists>k. k \<in> set [''colorA'', ''colorB'', ''colorC'', ''DispensePos''] \<and> column df k = Inl e"
  using assms by (auto simp: bo_data_of_def split: sum.splits)

subsection \<open>The data section, written out\<close>

lemma spread_braces_append: "spread_braces (a @ b) = spread_braces a @ spread_braces b"
  by (simp add: spread_braces_def py_replace_single)

lemma spread_braces_parts:
  "spread_braces ''{'' = ''{'' @ nl # ''        ''"
  "spread_braces ''}'' = nl # ''    }''"
  "spread_braces (newline_indent (0 + 1)) = nl # ''        ''"
  "spread_braces (newline_indent 0) = [nl]"
  "spread_braces '': '' = '': ''"
  "spread_braces '','' = '',''"
  by code_simp+

lemma spread_braces_keys:
  \<open>spread_braces (encode_str ''colorA'') = ''"colorA"''\<close>
  \<open>spread_braces (encode_str ''colorB'') = ''"colorB"''\<close>
  \<open>spread_braces (encode_str ''colorC'') = ''"colorC"''\<close>
  \<open>spread_braces (encode_str ''DispensePos'') = ''"DispensePos"''\<close>
  by code_simp+

lemma data_section_keys:
  \<open>data_section [(''colorA'', a), (''colorB'', b), (''colorC'', c), (''DispensePos'', p)] n
     = ''    # BO ITERATION DATA - BO'' @ py_str n @ nl # ''    BO_DATA = ''
       @ ''{'' @ nl # ''        '' @ nl # ''        ''
       @ ''"colorA"'' @ '': '' @ spread_braces (encode_list 1 a)
       @ '','' @ nl # ''        ''
       @ ''"colorB"'' @ '': '' @ spread_braces (encode_list 1 b)
       @ '','' @ nl # ''        ''
       @ ''"colorC"'' @ '': '' @ spread_braces (encode_list 1 c)
       @ '','' @ nl # ''        ''
       @ ''"DispensePos"'' @ '': '' @ spread_braces (encode_list 1 p)
       @ [nl] @ nl # ''    }''\<close>
proof -
  let ?bo = "[(''colorA'', a), (''colorB'', b), (''colorC'', c), (''DispensePos'', p)]"
  have j: "json_dumps ?bo
          = ''{'' @ newline_indent (0 + 1)
            @ encode_str ''colorA'' @ '': '' @ encode_list (0 + 1) a
            @ '','' @ newline_indent (0 + 1)
            @ encode_str ''colorB'' @ '': '' @ encode_list (0 + 1) b
            @ '','' @ newline_indent (0 + 1)
            @ encode_str ''colorC'' @ '': '' @ encode_list (0 + 1) c
            @ '','' @ newline_indent (0 + 1)
            @ encode_str ''DispensePos'' @ '': '' @ encode_list (0 + 1) p
            @ newline_indent 0 @ ''}''"
    unfolding json_dumps_def encode_dict_def by simp
  have "data_section ?bo n
      = ''    # BO ITERATION DATA - BO'' @ py_str n @ nl # ''    BO_DATA = ''
        @ spread_braces (json_dumps ?bo)"
    by (simp only: data_section_def spread_braces_def)
  also have "spread_braces (json_dumps ?bo)
      = (''{'' @ nl # ''        '') @ (nl # ''        '')
        @ spread_braces (encode_str ''colorA'') @ '': '' @ spread_braces (encode_list (0 + 1) a)
        @ '','' @ (nl # ''        '')
        @ spread_braces (encode_str ''colorB'') @ '': '' @ spread_braces (encode_list (0 + 1) b)
        @ '','' @ (nl # ''        '')
        @ spread_braces (encode_str ''colorC'') @ '': '' @ spread_braces (encode_list (0 + 1) c)
        @ '','' @ (nl # ''        '')
        @ spread_braces (encode_str ''DispensePos'') @ '': ''
        @ spread_braces (encode_list (0 + 1) p)
        @ [nl] @ (nl # ''    }'')"
    by (simp only: j spread_braces_append spread_braces_parts)
  finally show ?thesis
    by (simp add: spread_braces_keys)
qed

lemma expand_template_plain_text: "bslash \<notin> set s \<Longrightarrow> expand_template s = Inr s"
proof (induction s)
  case Nil
  then show ?case by simp
next
  case (Cons a s)
  then have "a \<noteq> bslash" and "expand_template s = Inr s"
    by auto
  then show ?case
    by (simp add: expand_template_plain)
qed

text \<open>
  C6. The serialisation is a function of the columns of the table, not of the order in
  which the table holds them: two tables with the same columns build the same
  \<^verbatim>\<open>bo_data\<close>, and the generator does the same on both. In \<^verbatim>\<open>bo_data\<close>, in its
  JSON text and in the data section made of it, the keys stand in the order colorA,
  colorB, colorC, DispensePos. The protocol that the generator writes has the data
  section, as the replacement template expands it, in the place of the region; the
  expansion is the data section itself when that has no backslash.
\<close>

theorem serialization_deterministic:
  assumes "mset df1 = mset df2"
  shows \<open>bo_data_of df1 = bo_data_of df2
         \<and> generate_protocol_from_dataframe w df1 n out
             = generate_protocol_from_dataframe w df2 n out
         \<and> (bo_data_of df1 = Inr bo \<longrightarrow>
              (\<exists>a b c p. column df1 ''colorA'' = Inr a \<and> column df1 ''colorB'' = Inr b
                 \<and> column df1 ''colorC'' = Inr c \<and> column df1 ''DispensePos'' = Inr p
                 \<and> bo = [(''colorA'', a), (''colorB'', b), (''colorC'', c), (''DispensePos'', p)]
                 \<and> json_dumps bo
                     = ''{'' @ newline_indent 1
                       @ encode_str ''colorA'' @ '': '' @ encode_list 1 a
                       @ '','' @ newline_indent 1
                       @ encode_str ''colorB'' @ '': '' @ encode_list 1 b
                       @ '','' @ newline_indent 1
                       @ encode_str ''colorC'' @ '': '' @ encode_list 1 c
                       @ '','' @ newline_indent 1
                       @ encode_str ''DispensePos'' @ '': '' @ encode_list 1 p
                       @ newline_indent 0 @ ''}''
                 \<and> data_section bo n
                     = ''    # BO ITERATION DATA - BO'' @ py_str n @ nl # ''    BO_DATA = ''
                       @ ''{'' @ nl # ''        '' @ nl # ''        ''
                       @ ''"colorA"'' @ '': '' @ spread_braces (encode_list 1 a)
                       @ '','' @ nl # ''        ''
                       @ ''"colorB"'' @ '': '' @ spread_braces (encode_list 1 b)
                       @ '','' @ nl # ''        ''
                       @ ''"colorC"'' @ '': '' @ spread_braces (encode_list 1 c)
                       @ '','' @ nl # ''        ''
                       @ ''"DispensePos"'' @ '': '' @ spread_braces (encode_list 1 p)
                       @ [nl] @ nl # ''    }''))
         \<and> (bo_data_of df1 = Inr bo \<and> expand_template (data_section bo n) = Inr d
             \<and> files w base_protocol_path = Some t0
             \<and> universal_newlines t0 = a0 @ pattern_prefix @ body @ CHR ''}'' # rest
             \<and> body \<noteq> [] \<and> CHR ''}'' \<notin> set body
             \<and> no_region_in a0 (pattern_prefix @ body @ CHR ''}'' # rest)
             \<and> writable w (protocol_path_of out n)
            \<longrightarrow> generate_protocol_from_dataframe w df2 n out
                 = (w\<lparr>files := (files w)(protocol_path_of out n \<mapsto>
                        relabel n (a0 @ d @ re_sub d rest))\<rparr>,
                    Inr (Some (protocol_path_of out n))))
         \<and> (bslash \<notin> set (data_section bo n)
            \<longrightarrow> expand_template (data_section bo n) = Inr (data_section bo n))\<close>
proof (intro conjI impI)
  show eq: "bo_data_of df1 = bo_data_of df2"
    unfolding bo_data_of_def column_mset[OF assms] ..
  show "generate_protocol_from_dataframe w df1 n out
          = generate_protocol_from_dataframe w df2 n out"
    by (simp add: generate_protocol_from_dataframe_steps eq)
  show "expand_template (data_section bo n) = Inr (data_section bo n)"
    if "bslash \<notin> set (data_section bo n)"
    using that by (rule expand_template_plain_text)
  show "generate_protocol_from_dataframe w df2 n out
          = (w\<lparr>files := (files w)(protocol_path_of out n \<mapsto>
                 relabel n (a0 @ d @ re_sub d rest))\<rparr>,
             Inr (Some (protocol_path_of out n)))"
    if h: "bo_data_of df1 = Inr bo \<and> expand_template (data_section bo n) = Inr d
             \<and> files w base_protocol_path = Some t0
             \<and> universal_newlines t0 = a0 @ pattern_prefix @ body @ CHR ''}'' # rest
             \<and> body \<noteq> [] \<and> CHR ''}'' \<notin> set body
             \<and> no_region_in a0 (pattern_prefix @ body @ CHR ''}'' # rest)
             \<and> writable w (protocol_path_of out n)"
  proof -
    from h have "match_pattern (pattern_prefix @ body @ CHR ''}'' # rest) = Some rest"
      by (simp add: match_pattern_region)
    then have "re_sub d (pattern_prefix @ body @ CHR ''}'' # rest) = d @ re_sub d rest"
      by (rule re_sub_match)
    moreover from h have "re_sub d (a0 @ pattern_prefix @ body @ CHR ''}'' # rest)
        = a0 @ re_sub d (pattern_prefix @ body @ CHR ''}'' # rest)"
      by (intro re_sub_outside) simp
    ultimately have "re_sub d (universal_newlines t0) = a0 @ d @ re_sub d rest"
      using h by simp
    with h eq show ?thesis
      by (simp add: generate_protocol_from_dataframe_steps write_file_def)
  qed
next
  assume "bo_data_of df1 = Inr bo"
  then obtain a b c p where cols: "column df1 ''colorA'' = Inr a" "column df1 ''colorB'' = Inr b"
      "column df1 ''colorC'' = Inr c" "column df1 ''DispensePos'' = Inr p"
    and bo: "bo = [(''colorA'', a), (''colorB'', b), (''colorC'', c), (''DispensePos'', p)]"
    unfolding bo_data_of_columns by blast
  have "json_dumps bo
          = ''{'' @ newline_indent 1
            @ encode_str ''colorA'' @ '': '' @ encode_list 1 a
            @ '','' @ newline_indent 1
            @ encode_str ''colorB'' @ '': '' @ encode_list 1 b
            @ '','' @ newline_indent 1
            @ encode_str ''colorC'' @ '': '' @ encode_list 1 c
            @ '','' @ newline_indent 1
            @ encode_str ''DispensePos'' @ '': '' @ encode_list 1 p
            @ newline_indent 0 @ ''}''"
    unfolding bo json_dumps_def encode_dict_def by simp
  moreover note data_section_keys[of a b c p n, folded bo]
  ultimately show \<open>\<exists>a b c p. column df1 ''colorA'' = Inr a \<and> column df1 ''colorB'' = Inr b
                 \<and> column df1 ''colorC'' = Inr c \<and> column df1 ''DispensePos'' = Inr p
                 \<and> bo = [(''colorA'', a), (''colorB'', b), (''colorC'', c), (''DispensePos'', p)]
                 \<and> json_dumps bo
                     = ''{'' @ newline_indent 1
                       @ encode_str ''colorA'' @ '': '' @ encode_list 1 a
                       @ '','' @ newline_indent 1
                       @ encode_str ''colorB'' @ '': '' @ encode_list 1 b
                       @ '','' @ newline_indent 1
                       @ encode_str ''colorC'' @ '': '' @ encode_list 1 c
                       @ '','' @ newline_indent 1
                       @ encode_str ''DispensePos'' @ '': '' @ encode_list 1 p
                       @ newline_indent 0 @ ''}''
                 \<and> data_section bo n
                     = ''    # BO ITERATION DATA - BO'' @ py_str n @ nl # ''    BO_DATA = ''
                       @ ''{'' @ nl # ''        '' @ nl # ''        ''
                       @ ''"colorA"'' @ '': '' @ spread_braces (encode_list 1 a)
                       @ '','' @ nl # ''        ''
                       @ ''"colorB"'' @ '': '' @ spread_braces (encode_list 1 b)
                       @ '','' @ nl # ''        ''
                       @ ''"colorC"'' @ '': '' @ spread_braces (encode_list 1 c)
                       @ '','' @ nl # ''        ''
                       @ ''"DispensePos"'' @ '': '' @ spread_braces (encode_list 1 p)
                       @ [nl] @ nl # ''    }''\<close>
    using cols bo by blast
qed

lemma permuted_mset: "mset example_table = mset permuted_table"
  by (simp add: example_table_def permuted_table_def add_mset_commute)

lemma nested_read:
  "universal_newlines nested_base
     = nested_head @ pattern_prefix @ nested_body @ CHR ''}'' # nested_rest"
  by code_simp

theorem serialization_deterministic_witness:
  "mset example_table = mset permuted_table
   \<and> bo_data_of example_table = Inr example_bo
   \<and> bo_data_of permuted_table = Inr example_bo
   \<and> map fst example_bo = [''colorA'', ''colorB'', ''colorC'', ''DispensePos'']
   \<and> bslash \<notin> set (data_section example_bo 2)
   \<and> data_section example_bo 2 = example_data
   \<and> generate_protocol_from_dataframe (example_world nested_base) example_table 2 ''.''
       = generate_protocol_from_dataframe (example_world nested_base) permuted_table 2 ''.''
   \<and> generate_protocol_from_dataframe (example_world nested_base) permuted_table 2 ''.''
       = ((example_world nested_base)\<lparr>files := (files (example_world nested_base))
            (protocol_path_of ''.'' 2 \<mapsto>
               relabel 2 (nested_head @ example_data @ re_sub example_data nested_rest))\<rparr>,
          Inr (Some (protocol_path_of ''.'' 2)))"
proof -
  note s = serialization_deterministic[OF permuted_mset, of "example_world nested_base" 2
      "''.''" example_bo example_data nested_base nested_head nested_body nested_rest]
  from s example_bo_data obtain a b c p where
    bo: "example_bo = [(''colorA'', a), (''colorB'', b), (''colorC'', c), (''DispensePos'', p)]"
    by blast
  have keys: "map fst example_bo = [''colorA'', ''colorB'', ''colorC'', ''DispensePos'']"
    by (subst bo) simp
  have plain: "bslash \<notin> set (data_section example_bo 2)"
    by code_simp
  with s example_expand have data: "data_section example_bo 2 = example_data"
    by simp
  have b: "nested_body \<noteq> []" "CHR ''}'' \<notin> set nested_body"
    by code_simp+
  have n: "no_region_in nested_head (pattern_prefix @ nested_body @ CHR ''}'' # nested_rest)"
    by code_simp
  from s example_bo_data example_expand example_files[of nested_base] nested_read b n
  have "generate_protocol_from_dataframe (example_world nested_base) permuted_table 2 ''.''
       = ((example_world nested_base)\<lparr>files := (files (example_world nested_base))
            (protocol_path_of ''.'' 2 \<mapsto>
               relabel 2 (nested_head @ example_data @ re_sub example_data nested_rest))\<rparr>,
          Inr (Some (protocol_path_of ''.'' 2)))"
    by blast
  with s permuted_mset example_bo_data keys plain data show ?thesis
    by simp
qed

subsection \<open>A table without a required column\<close>

lemma bo_data_of_missing:
  assumes "k \<in> set [''colorA'', ''colorB'', ''colorC'', ''DispensePos'']"
    and "k \<notin> fst ` set df"
  shows "\<exists>e. bo_data_of df = Inl e
           \<and> (e = AttributeError
               \<or> (\<exists>k'. k' \<in> set [''colorA'', ''colorB'', ''colorC'', ''DispensePos'']
                     \<and> k' \<notin> fst ` set df \<and> e = KeyError k'))
           \<and> (distinct (map fst df) \<longrightarrow>
                (\<exists>k'. k' \<in> set [''colorA'', ''colorB'', ''colorC'', ''DispensePos'']
                   \<and> k' \<notin> fst ` set df \<and> e = KeyError k'))"
proof (cases "bo_data_of df")
  case (Inl e)
  then obtain k' where k': "k' \<in> set [''colorA'', ''colorB'', ''colorC'', ''DispensePos'']"
      "column df k' = Inl e"
    using bo_data_of_error by blast
  then have "e = AttributeError \<or> (e = KeyError k' \<and> k' \<notin> fst ` set df)"
    using column_error by blast
  moreover have "distinct (map fst df) \<Longrightarrow> e \<noteq> AttributeError"
    using k'(2) column_distinct by metis
  ultimately show ?thesis
    using Inl k'(1) by blast
next
  case (Inr bo)
  then have "column df k \<noteq> Inl (KeyError k)"
    using assms(1) unfolding bo_data_of_columns by auto
  with assms(2) show ?thesis
    by (simp add: column_missing)
qed

lemma handler_unreadable: "update_csv_data_handler (\<lambda>t. None) w p = (w, None)"
  by (simp add: update_csv_data_handler_def generate_protocol_from_csv_steps read_csv_def
           split: option.splits)

text \<open>
  C7 (as stated, refuted). The code has no error of its own for a missing column, and
  what a table without colorC makes it raise need not be about the missing column:
  \<open>duplicated_table\<close> lacks colorC, and the generator fails on it with the
  \<^verbatim>\<open>AttributeError\<close> of the duplicated label colorA. From
  \<^verbatim>\<open>update_csv_data_handler\<close> a table without colorC gives the result that an
  unreadable source gives.
\<close>

theorem missing_column_counterexample:
  "''colorC'' \<notin> fst ` set duplicated_table
   \<and> generate_protocol_from_dataframe (example_world example_base) duplicated_table 2 ''.''
       = (example_world example_base, Inl AttributeError)
   \<and> update_csv_data_handler (\<lambda>t. Some table_without_colorC) (example_world example_base)
        ''./data/BO_R2.csv''
       = update_csv_data_handler (\<lambda>t. None) (example_world example_base) ''./data/BO_R2.csv''"
proof -
  have 1: "''colorC'' \<notin> fst ` set duplicated_table"
    by (simp add: duplicated_table_def)
  have "bo_data_of duplicated_table = Inl AttributeError"
    by (simp add: bo_data_of_def column_def duplicated_table_def)
  then have 2: "generate_protocol_from_dataframe (example_world example_base) duplicated_table
      2 ''.'' = (example_world example_base, Inl AttributeError)"
    by (simp add: generate_protocol_from_dataframe_steps)
  have "bo_data_of table_without_colorC = Inl (KeyError ''colorC'')"
    by (simp add: bo_data_of_def column_def table_without_colorC_def)
  then have "update_csv_data_handler (\<lambda>t. Some table_without_colorC)
      (example_world example_base) ''./data/BO_R2.csv'' = (example_world example_base, None)"
    by (simp add: update_csv_data_handler_def generate_protocol_from_csv_steps read_csv_def
          example_world_def)
  with 1 2 show ?thesis
    by (simp add: handler_unreadable)
qed

text \<open>
  C7 (amended). When the table lacks one of the columns colorA, colorB, colorC,
  DispensePos, both generators raise an exception before they read the base protocol,
  and the file system stays as it was. The exception is the \<^verbatim>\<open>KeyError\<close> of a required
  column that the table lacks, or the \<^verbatim>\<open>AttributeError\<close> of a duplicated label; for a
  table whose labels are distinct (every table that \<^verbatim>\<open>pd.read_csv\<close> builds) it is the
  \<^verbatim>\<open>KeyError\<close>. \<^verbatim>\<open>update_csv_data_handler\<close> turns the exception into the result
  \<^verbatim>\<open>None\<close>, which is also its result for an unreadable source.
\<close>

theorem missing_column_fails:
  assumes "k \<in> set [''colorA'', ''colorB'', ''colorC'', ''DispensePos'']"
    and "k \<notin> fst ` set df"
  shows "(\<exists>e. generate_protocol_from_dataframe w df n out = (w, Inl e)
            \<and> (e = AttributeError
                \<or> (\<exists>k'. k' \<in> set [''colorA'', ''colorB'', ''colorC'', ''DispensePos'']
                      \<and> k' \<notin> fst ` set df \<and> e = KeyError k'))
            \<and> (distinct (map fst df) \<longrightarrow>
                 (\<exists>k'. k' \<in> set [''colorA'', ''colorB'', ''colorC'', ''DispensePos'']
                    \<and> k' \<notin> fst ` set df \<and> e = KeyError k')))
         \<and> (read_csv parse w p = Some df \<longrightarrow>
              (\<exists>e. generate_protocol_from_csv parse w p n out = (w, Inl e)
                 \<and> (e = AttributeError
                     \<or> (\<exists>k'. k' \<in> set [''colorA'', ''colorB'', ''colorC'', ''DispensePos'']
                           \<and> k' \<notin> fst ` set df \<and> e = KeyError k'))
                 \<and> (distinct (map fst df) \<longrightarrow>
                      (\<exists>k'. k' \<in> set [''colorA'', ''colorB'', ''colorC'', ''DispensePos'']
                         \<and> k' \<notin> fst ` set df \<and> e = KeyError k')))
              \<and> update_csv_data_handler parse w p = (w, None)
              \<and> update_csv_data_handler parse w p = update_csv_data_handler (\<lambda>t. None) w p)"
proof -
  obtain e where e: "bo_data_of df = Inl e"
    "e = AttributeError
       \<or> (\<exists>k'. k' \<in> set [''colorA'', ''colorB'', ''colorC'', ''DispensePos'']
             \<and> k' \<notin> fst ` set df \<and> e = KeyError k')"
    "distinct (map fst df) \<longrightarrow>
       (\<exists>k'. k' \<in> set [''colorA'', ''colorB'', ''colorC'', ''DispensePos'']
          \<and> k' \<notin> fst ` set df \<and> e = KeyError k')"
    using bo_data_of_missing[OF assms] by blast
  have 1: "generate_protocol_from_dataframe w df n out = (w, Inl e)" for n out
    by (simp add: generate_protocol_from_dataframe_steps e(1))
  have 2: "generate_protocol_from_csv parse w p n out = (w, Inl e)"
    if "read_csv parse w p = Some df" for n out
    using that by (simp add: generate_protocol_from_csv_steps e(1))
  have 3: "update_csv_data_handler parse w p = (w, None)" if "read_csv parse w p = Some df"
    by (simp add: update_csv_data_handler_def 2[OF that])
  from 1 2 3 e(2,3) handler_unreadable[of w p] show ?thesis
    by (metis (no_types, lifting))
qed

theorem missing_column_fails_witness:
  "''colorC'' \<in> set [''colorA'', ''colorB'', ''colorC'', ''DispensePos'']
   \<and> ''colorC'' \<notin> fst ` set table_without_colorC
   \<and> distinct (map fst table_without_colorC)
   \<and> read_csv (\<lambda>t. Some table_without_colorC) (example_world example_base) ''./data/BO_R2.csv''
       = Some table_without_colorC
   \<and> generate_protocol_from_dataframe (example_world example_base)
        table_without_colorC 2 ''.'' = (example_world example_base, Inl (KeyError ''colorC''))
   \<and> fst (generate_protocol_from_csv (\<lambda>t. Some table_without_colorC)
        (example_world example_base) ''./data/BO_R2.csv'' 2 ''.'') = example_world example_base
   \<and> update_csv_data_handler (\<lambda>t. Some table_without_colorC) (example_world example_base)
        ''./data/BO_R2.csv'' = (example_world example_base, None)"
proof -
  have k: "''colorC'' \<in> set [''colorA'', ''colorB'', ''colorC'', ''DispensePos'']"
    by simp
  have m: "''colorC'' \<notin> fst ` set table_without_colorC"
    by (simp add: table_without_colorC_def)
  have d: "distinct (map fst table_without_colorC)"
    by (simp add: table_without_colorC_def)
  have r: "read_csv (\<lambda>t. Some table_without_colorC) (example_world example_base)
      ''./data/BO_R2.csv'' = Some table_without_colorC"
    by (simp add: read_csv_def example_world_def)
  note t = missing_column_fails[OF k m, of "example_world example_base" 2 "''.''"
      "\<lambda>t. Some table_without_colorC" "''./data/BO_R2.csv''"]
  from t d obtain k' where k': "k' \<in> set [''colorA'', ''colorB'', ''colorC'', ''DispensePos'']"
      "k' \<notin> fst ` set table_without_colorC"
      "generate_protocol_from_dataframe (example_world example_base) table_without_colorC 2 ''.''
         = (example_world example_base, Inl (KeyError k'))"
    by blast
  from k'(1,2) have "k' = ''colorC''"
    by (auto simp: table_without_colorC_def)
  with k'(3) k m d r t show ?thesis
    by auto
qed

subsection \<open>No group syntax in the replacement text\<close>

lemma safe_escapes_plain: "c \<noteq> bslash \<Longrightarrow> safe_escapes (c # s) = safe_escapes s"
  by (cases s) auto

lemma safe_escapes_append:
  "safe_escapes a \<Longrightarrow> safe_escapes b \<Longrightarrow> safe_escapes (a @ b)"
proof (induction a rule: safe_escapes.induct)
  case 1
  then show ?case by simp
next
  case (2 c)
  then show ?case by (simp add: safe_escapes_plain)
next
  case (3 c d cs)
  then show ?case by (auto split: if_splits)
qed

lemma safe_escapes_no_bslash: "bslash \<notin> set s \<Longrightarrow> safe_escapes s"
  by (induction s) (auto simp: safe_escapes_plain)

lemma safe_escapes_concat:
  "(\<And>x. x \<in> set xs \<Longrightarrow> safe_escapes x) \<Longrightarrow> safe_escapes (concat xs)"
  by (induction xs) (auto intro: safe_escapes_append)

lemma safe_escapes_expand: "safe_escapes s \<Longrightarrow> expand_template s \<noteq> Inl GroupReference"
proof (induction s rule: expand_template.induct)
  case 1
  then show ?case by simp
next
  case (2 c)
  then show ?case by simp
next
  case (3 c d cs)
  then show ?case
    by (auto split: if_splits sum.splits option.splits)
qed

lemma hex_char_plain: "hex_char d \<noteq> bslash"
proof -
  have "hex_char d \<in> set ''0123456789abcdef''"
    unfolding hex_char_def by (rule nth_mem) simp
  then show ?thesis
    by (auto simp: bslash_def)
qed

lemma safe_json_escape: "safe_escapes (json_escape c)"
proof -
  have u: "safe_escapes (bslash # ''u00'' @ [hex_char a, hex_char b])" for a b
    using hex_char_plain[of a] hex_char_plain[of b]
    by (simp add: is_digit_def bslash_def)
  have p: "c \<noteq> bslash \<Longrightarrow> safe_escapes [c]"
    by simp
  have e: "safe_escapes [bslash, bslash]" "safe_escapes [bslash, CHR 0x22]"
    "safe_escapes [bslash, CHR ''b'']" "safe_escapes [bslash, CHR ''f'']"
    "safe_escapes [bslash, CHR ''n'']" "safe_escapes [bslash, CHR ''r'']"
    "safe_escapes [bslash, CHR ''t'']"
    by (simp_all add: is_digit_def bslash_def)
  show ?thesis
    unfolding json_escape_def Let_def using u p e by (simp only: split: if_split) blast
qed

lemma safe_encode_str: "safe_escapes (encode_str s)"
proof -
  have "safe_escapes (concat (map json_escape s))"
    by (rule safe_escapes_concat) (auto simp: safe_json_escape)
  moreover have "safe_escapes [CHR 0x22]"
    by (simp add: bslash_def)
  ultimately have "safe_escapes (concat (map json_escape s) @ [CHR 0x22])"
    by (rule safe_escapes_append)
  then show ?thesis
    by (simp add: encode_str_def safe_escapes_plain bslash_def)
qed

lemma digit_char_plain: "d < 10 \<Longrightarrow> digit_char d \<noteq> bslash"
proof
  assume d: "d < 10" and "digit_char d = bslash"
  then have "(of_char (digit_char d) :: nat) = of_char bslash"
    by simp
  then have "(48 + d) mod 256 = (92 :: nat)"
    by (simp add: digit_char_def bslash_def)
  with d show False
    by simp
qed

lemma digits_of_plain: "bslash \<notin> set (digits_of n)"
proof (induction n rule: digits_of.induct)
  case (1 n)
  show ?case
  proof (cases "n < 10")
    case True
    then show ?thesis
      using digit_char_plain[of n] by (subst digits_of.simps) auto
  next
    case False
    have "n mod 10 < 10" by simp
    then have "digit_char (n mod 10) \<noteq> bslash"
      by (rule digit_char_plain)
    with False "1.IH" show ?thesis
      by (subst digits_of.simps) auto
  qed
qed

lemma py_str_plain: "bslash \<notin> set (py_str i)"
proof -
  have "CHR ''-'' \<noteq> bslash"
    by (simp add: bslash_def)
  then show ?thesis
    by (simp add: py_str_def digits_of_plain)
qed

lemma safe_encode_cell: "plain_cell v \<Longrightarrow> safe_escapes (encode_cell v)"
proof (cases v)
  case (CInt i)
  then show ?thesis
    by (simp add: safe_escapes_no_bslash[OF py_str_plain])
next
  case (CFloat t)
  assume "plain_cell v"
  with CFloat show ?thesis
    by (simp add: safe_escapes_no_bslash)
next
  case (CStr s)
  then show ?thesis
    by (simp add: safe_encode_str)
next
  case (CBool b)
  then show ?thesis
    by (simp add: bslash_def)
next
  case CNone
  then show ?thesis
    by (simp add: bslash_def)
qed

lemma safe_py_join:
  "safe_escapes sep \<Longrightarrow> (\<And>x. x \<in> set xs \<Longrightarrow> safe_escapes x) \<Longrightarrow> safe_escapes (py_join sep xs)"
  by (induction sep xs rule: py_join.induct) (auto intro: safe_escapes_append)

lemma safe_newline_indent: "safe_escapes (newline_indent k)"
  by (rule safe_escapes_no_bslash) (auto simp: newline_indent_def nl_def bslash_def)

lemma safe_encode_list:
  assumes "list_all plain_cell vs"
  shows "safe_escapes (encode_list k vs)"
proof -
  have sep: "safe_escapes ('','' @ newline_indent (k + 1))"
    by (intro safe_escapes_append safe_newline_indent) (simp add: bslash_def)
  have "safe_escapes (py_join ('','' @ newline_indent (k + 1)) (map encode_cell vs))"
    using assms by (intro safe_py_join sep) (auto simp: list_all_iff safe_encode_cell)
  then have "safe_escapes (''['' @ newline_indent (k + 1)
           @ py_join ('','' @ newline_indent (k + 1)) (map encode_cell vs)
           @ newline_indent k @ '']'')"
    by (intro safe_escapes_append safe_newline_indent) (simp_all add: bslash_def)
  then show ?thesis
    by (simp add: encode_list_def bslash_def)
qed

lemma safe_json_dumps:
  assumes "list_all (\<lambda>kv. list_all plain_cell (snd kv)) bo"
  shows "safe_escapes (json_dumps bo)"
proof -
  have sep: "safe_escapes ('','' @ newline_indent (0 + 1))"
    by (intro safe_escapes_append safe_newline_indent) (simp add: bslash_def)
  have item: "safe_escapes (encode_str (fst kv) @ '': '' @ encode_list (0 + 1) (snd kv))"
    if "kv \<in> set bo" for kv
  proof -
    from that assms have "list_all plain_cell (snd kv)"
      by (auto simp: list_all_iff)
    then have "safe_escapes (encode_list (0 + 1) (snd kv))"
      by (rule safe_encode_list)
    then have "safe_escapes ('': '' @ encode_list (0 + 1) (snd kv))"
      by (simp add: safe_escapes_plain bslash_def)
    with safe_encode_str show ?thesis
      by (rule safe_escapes_append)
  qed
  have "safe_escapes (py_join ('','' @ newline_indent (0 + 1))
          (map (\<lambda>kv. encode_str (fst kv) @ '': '' @ encode_list (0 + 1) (snd kv)) bo))"
  proof (rule safe_py_join[OF sep])
    fix x
    assume "x \<in> set (map (\<lambda>kv. encode_str (fst kv) @ '': '' @ encode_list (0 + 1) (snd kv)) bo)"
    then obtain kv where "kv \<in> set bo"
      "x = encode_str (fst kv) @ '': '' @ encode_list (0 + 1) (snd kv)"
      by auto
    then show "safe_escapes x"
      using item by blast
  qed
  then have "safe_escapes (''{'' @ newline_indent (0 + 1)
           @ py_join ('','' @ newline_indent (0 + 1))
               (map (\<lambda>kv. encode_str (fst kv) @ '': '' @ encode_list (0 + 1) (snd kv)) bo)
           @ newline_indent 0 @ ''}'')"
    by (intro safe_escapes_append safe_newline_indent) (simp_all add: bslash_def)
  then show ?thesis
    by (simp add: json_dumps_def encode_dict_def bslash_def)
qed

lemma safe_py_replace_single:
  assumes "x \<noteq> bslash" "bslash \<notin> set new" "new \<noteq> []"
    "hd new \<noteq> CHR ''g''" "\<not> is_digit (hd new)"
  shows "safe_escapes s \<Longrightarrow> safe_escapes (py_replace [x] new s)"
proof (induction s rule: safe_escapes.induct)
  case 1
  then show ?case by simp
next
  case (2 c)
  then show ?case
    using assms(2) by (auto simp: py_replace_single intro: safe_escapes_no_bslash)
next
  case (3 c d cs)
  let ?f = "\<lambda>c. if c = x then new else [c]"
  show ?case
  proof (cases "c = bslash")
    case True
    with "3.prems" have d: "d \<noteq> CHR ''g''" "\<not> is_digit d" and cs: "safe_escapes cs"
      by auto
    from cs "3.IH"(1)[OF True] d have r: "safe_escapes (py_replace [x] new cs)"
      by simp
    obtain e es where e: "?f d = e # es" "e \<noteq> CHR ''g''" "\<not> is_digit e" "bslash \<notin> set es"
    proof (cases "d = x")
      case True
      with assms that show ?thesis
        by (cases new) auto
    next
      case False
      with d that show ?thesis
        by simp
    qed
    have "safe_escapes (es @ py_replace [x] new cs)"
      using safe_escapes_no_bslash[OF e(4)] r by (rule safe_escapes_append)
    then have "safe_escapes (bslash # e # es @ py_replace [x] new cs)"
      using e(2,3) by simp
    moreover have "py_replace [x] new (c # d # cs) = bslash # ?f d @ py_replace [x] new cs"
      unfolding py_replace_single using True assms(1) by simp
    ultimately show ?thesis
      using e(1) by (simp only: append_Cons)
  next
    case False
    with "3.prems" have "safe_escapes (d # cs)"
      by simp
    with "3.IH"(2)[OF False] have r: "safe_escapes (py_replace [x] new (d # cs))"
      by simp
    have "safe_escapes (?f c)"
      using False assms(2) by (auto intro: safe_escapes_no_bslash)
    then have "safe_escapes (?f c @ py_replace [x] new (d # cs))"
      using r by (rule safe_escapes_append)
    moreover have "py_replace [x] new (c # d # cs) = ?f c @ py_replace [x] new (d # cs)"
      unfolding py_replace_single by simp
    ultimately show ?thesis
      by (simp only:)
  qed
qed

lemma safe_data_section:
  assumes "list_all (\<lambda>kv. list_all plain_cell (snd kv)) bo"
  shows "safe_escapes (data_section bo n)"
proof -
  define x where "x = ''{'' @ nl # ''        ''"
  define y where "y = nl # ''    }''"
  have "safe_escapes (py_replace ''{'' x (json_dumps bo))"
    by (rule safe_py_replace_single)
       (simp_all add: x_def bslash_def nl_def is_digit_def safe_json_dumps[OF assms])
  then have "safe_escapes (py_replace ''}'' y (py_replace ''{'' x (json_dumps bo)))"
    by (rule safe_py_replace_single[rotated 5])
       (simp_all add: y_def bslash_def nl_def is_digit_def)
  moreover have "safe_escapes (''    # BO ITERATION DATA - BO'' @ py_str n @ nl # ''    BO_DATA = '')"
    by (rule safe_escapes_no_bslash)
       (simp add: py_str_plain py_str_plain[unfolded bslash_def] bslash_def nl_def)
  ultimately have "safe_escapes ((''    # BO ITERATION DATA - BO'' @ py_str n @ nl # ''    BO_DATA = '')
      @ py_replace ''}'' y (py_replace ''{'' x (json_dumps bo)))"
    by (rule safe_escapes_append[rotated])
  then show ?thesis
    by (simp add: data_section_def x_def y_def)
qed

lemma data_section_without_group_syntax:
  assumes "list_all (\<lambda>kv. list_all plain_cell (snd kv)) bo"
  shows "expand_template (data_section bo n) \<noteq> Inl GroupReference"
  using assms by (intro safe_escapes_expand safe_data_section)

end
